theory Spec2Isabelle
  imports Complex_Main "HOL-Library.Log_Nat"
begin

section \<open>The wallet store: data model\<close>

text \<open>
  The store keeps a virtual USD balance, the crypto holdings, the transaction log, the
  pending orders and the trading journal. The ambient sources of the store
  (\<^verbatim>\<open>generateId()\<close>, \<^verbatim>\<open>new Date()\<close>, \<^verbatim>\<open>Math.random()\<close>) are
  passed to each action as an explicit environment. Dates are milliseconds since the
  epoch. Several interfaces of the store share field names, so the fields of each record
  carry the record's prefix (\<open>h_\<close>, \<open>o_\<close>, \<open>tx_\<close>, \<open>j_\<close>).
\<close>

record 'n holding_of =
  h_symbol :: string
  h_name :: string
  h_shortName :: string
  h_amount :: 'n
  h_avgBuyPrice :: 'n
  h_color :: string

datatype order_type = Market | Limit | StopLoss | TakeProfit

datatype order_side = Buy | Sell

datatype order_status = Pending | Filled | Cancelled | Expired

record 'n pending_order_of =
  o_id :: string
  o_type :: order_type
  o_side :: order_side
  o_symbol :: string
  o_name :: string
  o_shortName :: string
  o_amount :: 'n
  o_targetPrice :: 'n
  o_createdAt :: int
  o_expiresAt :: "int option"
  o_status :: order_status
  o_color :: string

datatype transaction_type = TxBuy | TxSell | TxDeposit | TxBonus

record 'n transaction_of =
  tx_id :: string
  tx_type :: transaction_type
  tx_orderType :: "order_type option"
  tx_symbol :: string
  tx_name :: string
  tx_amount :: 'n
  tx_price :: 'n
  tx_total :: 'n
  tx_fee :: 'n
  tx_slippage :: "'n option"
  tx_timestamp :: int
  tx_note :: "string option"

record journal_entry =
  j_id :: string
  j_transactionId :: string
  j_note :: string
  j_tags :: "string list"
  j_createdAt :: int
  j_updatedAt :: int

datatype user_tier = Free | Starter | Pro | Ultimate

record 'n wallet_state_of =
  balance :: 'n
  initialDeposit :: 'n
  holdings :: "string \<rightharpoonup> 'n holding_of"
  transactions :: "'n transaction_of list"
  pendingOrders :: "'n pending_order_of list"
  journalEntries :: "journal_entry list"
  userTier :: user_tier
  lastBonusClaim :: "string option"
  slippageEnabled :: bool
  slippagePercent :: 'n

text \<open>
  What the ambient sources deliver during one action: the id that \<^verbatim>\<open>generateId()\<close>
  returns, the time that \<^verbatim>\<open>new Date()\<close> reads and the draw of
  \<^verbatim>\<open>Math.random()\<close> (a number in the interval from 0 inclusive to 1 exclusive).
\<close>

record 'n env_of =
  newId :: string
  now :: int
  random :: 'n

text \<open>
  The records take the type of numbers as a parameter, and the store is read twice. Over
  the reals, under the names of the source, arithmetic is exact and every number is
  finite: rounding, Infinity and NaN are outside this reading, so its statements speak of
  finite numbers, and one that depends on a quotient assumes the divisor non-zero. Over
  JavaScript's doubles, under the same names with the suffix \<open>_js\<close>, every operation
  rounds, overflows and propagates Infinity and NaN as the language does.
\<close>

type_synonym holding = "real holding_of"

type_synonym pending_order = "real pending_order_of"

type_synonym transaction = "real transaction_of"

type_synonym wallet_state = "real wallet_state_of"

type_synonym env = "real env_of"

section \<open>Constants and helpers\<close>

definition TRADING_FEE_PERCENT :: real where
  "TRADING_FEE_PERCENT = 0.1"

fun DAILY_BONUS :: "user_tier \<Rightarrow> real" where
  "DAILY_BONUS Free = 0"
| "DAILY_BONUS Starter = 50"
| "DAILY_BONUS Pro = 100"
| "DAILY_BONUS Ultimate = 2000"

definition INITIAL_BALANCE :: real where
  "INITIAL_BALANCE = 500"

definition calculateSlippage :: "real \<Rightarrow> real \<Rightarrow> real \<Rightarrow> bool \<Rightarrow> real" where
  "calculateSlippage rnd price slippagePct isBuy =
     (let randomFactor = rnd * slippagePct;
          slippageAmount = price * (randomFactor / 100)
      in if isBuy then slippageAmount else - slippageAmount)"

definition getExecutedPrice :: "real \<Rightarrow> real \<Rightarrow> real \<Rightarrow> bool \<Rightarrow> real" where
  "getExecutedPrice rnd price slippagePct isBuy =
     (let slippage = calculateSlippage rnd price slippagePct isBuy
      in price + slippage)"

section \<open>The store's actions\<close>

definition initialState :: "env \<Rightarrow> wallet_state" where
  "initialState e =
     \<lparr> balance = INITIAL_BALANCE,
       initialDeposit = INITIAL_BALANCE,
       holdings = Map.empty,
       transactions =
         [\<lparr> tx_id = newId e, tx_type = TxDeposit, tx_orderType = None,
            tx_symbol = ''USD'', tx_name = ''Initial Deposit'',
            tx_amount = INITIAL_BALANCE, tx_price = 1, tx_total = INITIAL_BALANCE,
            tx_fee = 0, tx_slippage = None, tx_timestamp = now e, tx_note = None \<rparr>],
       pendingOrders = [],
       journalEntries = [],
       userTier = Free,
       lastBonusClaim = None,
       slippageEnabled = True,
       slippagePercent = 0.1 \<rparr>"

definition deposit :: "env \<Rightarrow> real \<Rightarrow> wallet_state \<Rightarrow> wallet_state" where
  "deposit e amount s =
     s\<lparr> balance := balance s + amount,
        initialDeposit := initialDeposit s + amount,
        transactions :=
          \<lparr> tx_id = newId e, tx_type = TxDeposit, tx_orderType = None,
            tx_symbol = ''USD'', tx_name = ''Deposit'',
            tx_amount = amount, tx_price = 1, tx_total = amount,
            tx_fee = 0, tx_slippage = None, tx_timestamp = now e, tx_note = None \<rparr>
          # transactions s \<rparr>"

text \<open>
  \<^verbatim>\<open>buy\<close> and \<^verbatim>\<open>sell\<close> return \<^verbatim>\<open>{ success: false, error }\<close> (here \<open>Inl\<close> of
  the error string, with the state as it was) or \<^verbatim>\<open>{ success: true, executedPrice }\<close>
  (here \<open>Inr\<close> of the executed price, with the state that the one call of
  \<^verbatim>\<open>set\<close> produces).
\<close>

definition buy ::
  "env \<Rightarrow> string \<Rightarrow> string \<Rightarrow> string \<Rightarrow> real \<Rightarrow> real \<Rightarrow> string \<Rightarrow> wallet_state
     \<Rightarrow> (string + real) \<times> wallet_state" where
  "buy e symbol name shortName amount price color s =
     (let executedPrice =
            (if slippageEnabled s then getExecutedPrice (random e) price (slippagePercent s) True
             else price);
          slippage = executedPrice - price;
          fee = amount * (TRADING_FEE_PERCENT / 100);
          totalCost = amount + fee
      in if totalCost > balance s then (Inl ''Insufficient balance'', s)
         else
           let cryptoAmount = amount / executedPrice;
               (newAvgPrice, newAmount) =
                 (case holdings s symbol of
                    None \<Rightarrow> (executedPrice, cryptoAmount)
                  | Some existingHolding \<Rightarrow>
                      let totalValue =
                            h_amount existingHolding * h_avgBuyPrice existingHolding + amount;
                          newAmount = h_amount existingHolding + cryptoAmount
                      in (totalValue / newAmount, newAmount))
           in (Inr executedPrice,
               s\<lparr> balance := balance s - totalCost,
                  holdings := (holdings s)(symbol \<mapsto>
                    \<lparr> h_symbol = symbol, h_name = name, h_shortName = shortName,
                      h_amount = newAmount, h_avgBuyPrice = newAvgPrice, h_color = color \<rparr>),
                  transactions :=
                    \<lparr> tx_id = newId e, tx_type = TxBuy, tx_orderType = Some Market,
                      tx_symbol = symbol, tx_name = name,
                      tx_amount = cryptoAmount, tx_price = executedPrice, tx_total = amount,
                      tx_fee = fee,
                      tx_slippage = (if slippage > 0 then Some slippage else None),
                      tx_timestamp = now e, tx_note = None \<rparr>
                    # transactions s \<rparr>))"

text \<open>
  The earlier version of the store (\<^verbatim>\<open>src/stores/walletStore.ts\<close>) has the same
  \<^verbatim>\<open>buy\<close> without the slippage step: it executes at the quoted price, logs a
  transaction without order type and slippage, and returns \<^verbatim>\<open>{ success: true }\<close>.
\<close>

definition buy_basic ::
  "env \<Rightarrow> string \<Rightarrow> string \<Rightarrow> string \<Rightarrow> real \<Rightarrow> real \<Rightarrow> string \<Rightarrow> wallet_state
     \<Rightarrow> (string + unit) \<times> wallet_state" where
  "buy_basic e symbol name shortName amount price color s =
     (let fee = amount * (TRADING_FEE_PERCENT / 100);
          totalCost = amount + fee
      in if totalCost > balance s then (Inl ''Insufficient balance'', s)
         else
           let cryptoAmount = amount / price;
               (newAvgPrice, newAmount) =
                 (case holdings s symbol of
                    None \<Rightarrow> (price, cryptoAmount)
                  | Some existingHolding \<Rightarrow>
                      let totalValue =
                            h_amount existingHolding * h_avgBuyPrice existingHolding + amount;
                          newAmount = h_amount existingHolding + cryptoAmount
                      in (totalValue / newAmount, newAmount))
           in (Inr (),
               s\<lparr> balance := balance s - totalCost,
                  holdings := (holdings s)(symbol \<mapsto>
                    \<lparr> h_symbol = symbol, h_name = name, h_shortName = shortName,
                      h_amount = newAmount, h_avgBuyPrice = newAvgPrice, h_color = color \<rparr>),
                  transactions :=
                    \<lparr> tx_id = newId e, tx_type = TxBuy, tx_orderType = None,
                      tx_symbol = symbol, tx_name = name,
                      tx_amount = cryptoAmount, tx_price = price, tx_total = amount,
                      tx_fee = fee, tx_slippage = None,
                      tx_timestamp = now e, tx_note = None \<rparr>
                    # transactions s \<rparr>))"

definition sell ::
  "env \<Rightarrow> string \<Rightarrow> real \<Rightarrow> real \<Rightarrow> wallet_state \<Rightarrow> (string + real) \<times> wallet_state" where
  "sell e symbol amount price s =
     (case holdings s symbol of
        None \<Rightarrow> (Inl ''Insufficient holdings'', s)
      | Some holding \<Rightarrow>
          if h_amount holding < amount then (Inl ''Insufficient holdings'', s)
          else
            let executedPrice =
                  (if slippageEnabled s
                   then getExecutedPrice (random e) price (slippagePercent s) False
                   else price);
                slippage = price - executedPrice;
                totalValue = amount * executedPrice;
                fee = totalValue * (TRADING_FEE_PERCENT / 100);
                netValue = totalValue - fee;
                newAmount = h_amount holding - amount;
                newHoldings =
                  (if newAmount \<le> 0.00000001 then (holdings s)(symbol := None)
                   else (holdings s)(symbol \<mapsto> holding\<lparr> h_amount := newAmount \<rparr>))
            in (Inr executedPrice,
                s\<lparr> balance := balance s + netValue,
                   holdings := newHoldings,
                   transactions :=
                     \<lparr> tx_id = newId e, tx_type = TxSell, tx_orderType = Some Market,
                       tx_symbol = symbol, tx_name = h_name holding,
                       tx_amount = amount, tx_price = executedPrice, tx_total = totalValue,
                       tx_fee = fee,
                       tx_slippage = (if slippage > 0 then Some slippage else None),
                       tx_timestamp = now e, tx_note = None \<rparr>
                     # transactions s \<rparr>))"

section \<open>Pending orders\<close>

text \<open>
  The three placing actions return \<^verbatim>\<open>{ success: false, error }\<close> or
  \<^verbatim>\<open>{ success: true, orderId }\<close>; a new order goes to the end of the list.
\<close>

definition placeLimitOrder ::
  "env \<Rightarrow> order_side \<Rightarrow> string \<Rightarrow> string \<Rightarrow> string \<Rightarrow> real \<Rightarrow> real \<Rightarrow> string
     \<Rightarrow> wallet_state \<Rightarrow> (string + string) \<times> wallet_state" where
  "placeLimitOrder e side symbol name shortName amount targetPrice color s =
     (let rejected =
            (if side = Buy then
               (let fee = amount * (TRADING_FEE_PERCENT / 100)
                in if amount + fee > balance s
                   then Some ''Insufficient balance for limit order'' else None)
             else
               (let cryptoAmount = amount / targetPrice
                in case holdings s symbol of
                     None \<Rightarrow> Some ''Insufficient holdings for limit order''
                   | Some holding \<Rightarrow>
                       if h_amount holding < cryptoAmount
                       then Some ''Insufficient holdings for limit order'' else None))
      in case rejected of
           Some err \<Rightarrow> (Inl err, s)
         | None \<Rightarrow>
             let orderId = newId e;
                 order =
                   \<lparr> o_id = orderId, o_type = Limit, o_side = side, o_symbol = symbol,
                     o_name = name, o_shortName = shortName, o_amount = amount,
                     o_targetPrice = targetPrice, o_createdAt = now e,
                     o_expiresAt = Some (now e + 7 * 24 * 60 * 60 * 1000),
                     o_status = Pending, o_color = color \<rparr>
             in (Inr orderId, s\<lparr> pendingOrders := pendingOrders s @ [order] \<rparr>))"

definition placeStopLoss ::
  "env \<Rightarrow> string \<Rightarrow> real \<Rightarrow> real \<Rightarrow> wallet_state \<Rightarrow> (string + string) \<times> wallet_state" where
  "placeStopLoss e symbol amount stopPrice s =
     (case holdings s symbol of
        None \<Rightarrow> (Inl ''Insufficient holdings for stop-loss'', s)
      | Some holding \<Rightarrow>
          if h_amount holding < amount then (Inl ''Insufficient holdings for stop-loss'', s)
          else
            let orderId = newId e;
                order =
                  \<lparr> o_id = orderId, o_type = StopLoss, o_side = Sell, o_symbol = symbol,
                    o_name = h_name holding, o_shortName = h_shortName holding,
                    o_amount = amount, o_targetPrice = stopPrice, o_createdAt = now e,
                    o_expiresAt = None, o_status = Pending, o_color = h_color holding \<rparr>
            in (Inr orderId, s\<lparr> pendingOrders := pendingOrders s @ [order] \<rparr>))"

definition placeTakeProfit ::
  "env \<Rightarrow> string \<Rightarrow> real \<Rightarrow> real \<Rightarrow> wallet_state \<Rightarrow> (string + string) \<times> wallet_state" where
  "placeTakeProfit e symbol amount targetPrice s =
     (case holdings s symbol of
        None \<Rightarrow> (Inl ''Insufficient holdings for take-profit'', s)
      | Some holding \<Rightarrow>
          if h_amount holding < amount then (Inl ''Insufficient holdings for take-profit'', s)
          else
            let orderId = newId e;
                order =
                  \<lparr> o_id = orderId, o_type = TakeProfit, o_side = Sell, o_symbol = symbol,
                    o_name = h_name holding, o_shortName = h_shortName holding,
                    o_amount = amount, o_targetPrice = targetPrice, o_createdAt = now e,
                    o_expiresAt = None, o_status = Pending, o_color = h_color holding \<rparr>
            in (Inr orderId, s\<lparr> pendingOrders := pendingOrders s @ [order] \<rparr>))"

text \<open>
  The update that \<^verbatim>\<open>cancelOrder\<close> and \<^verbatim>\<open>checkAndExecuteOrders\<close> both
  write inline: every order of the list whose id is the given one gets the new status.
\<close>

definition markOrders :: "string \<Rightarrow> order_status \<Rightarrow> wallet_state \<Rightarrow> wallet_state" where
  "markOrders orderId st s =
     s\<lparr> pendingOrders :=
          map (\<lambda>ord. if o_id ord = orderId then ord\<lparr> o_status := st \<rparr> else ord) (pendingOrders s) \<rparr>"

definition cancelOrder :: "string \<Rightarrow> wallet_state \<Rightarrow> (string + unit) \<times> wallet_state" where
  "cancelOrder orderId s =
     (case find (\<lambda>ord. o_id ord = orderId) (pendingOrders s) of
        None \<Rightarrow> (Inl ''Order not found'', s)
      | Some order \<Rightarrow>
          if o_status order \<noteq> Pending then (Inl ''Order cannot be cancelled'', s)
          else (Inr (), markOrders orderId Cancelled s))"

text \<open>The \<^verbatim>\<open>switch\<close> on the order's type that sets \<^verbatim>\<open>shouldExecute\<close>.\<close>

definition shouldExecute :: "pending_order \<Rightarrow> real \<Rightarrow> bool" where
  "shouldExecute order currentPrice =
     (case o_type order of
        Limit \<Rightarrow>
          (if o_side order = Buy \<and> currentPrice \<le> o_targetPrice order then True
           else if o_side order = Sell \<and> currentPrice \<ge> o_targetPrice order then True
           else False)
      | StopLoss \<Rightarrow> currentPrice \<le> o_targetPrice order
      | TakeProfit \<Rightarrow> currentPrice \<ge> o_targetPrice order
      | Market \<Rightarrow> False)"

text \<open>
  The body of the \<^verbatim>\<open>forEach\<close> of \<^verbatim>\<open>checkAndExecuteOrders\<close>, for one order of
  the list read at the start of the pass. \<open>startedAt\<close> is the \<^verbatim>\<open>now\<close> of the pass;
  \<open>e\<close> is what the ambient sources deliver while this order executes. A price that is
  absent or zero is falsy and skips the order.
\<close>

definition processOrder ::
  "int \<Rightarrow> (string \<rightharpoonup> real) \<Rightarrow> env \<Rightarrow> pending_order \<Rightarrow> wallet_state \<Rightarrow> wallet_state" where
  "processOrder startedAt currentPrices e order s =
     (if o_status order \<noteq> Pending then s
      else if (case o_expiresAt order of None \<Rightarrow> False | Some t \<Rightarrow> t < startedAt)
      then markOrders (o_id order) Expired s
      else
        case currentPrices (o_symbol order) of
          None \<Rightarrow> s
        | Some currentPrice \<Rightarrow>
            if currentPrice = 0 then s
            else if shouldExecute order currentPrice then
              (if o_side order = Buy then
                 (case buy e (o_symbol order) (o_name order) (o_shortName order)
                         (o_amount order) (o_targetPrice order) (o_color order) s of
                    (Inr _, s') \<Rightarrow> markOrders (o_id order) Filled s'
                  | (Inl _, s') \<Rightarrow> s')
               else
                 (let cryptoAmount = o_amount order / o_targetPrice order
                  in case sell e (o_symbol order) cryptoAmount (o_targetPrice order) s of
                       (Inr _, s') \<Rightarrow> markOrders (o_id order) Filled s'
                     | (Inl _, s') \<Rightarrow> s'))
            else s)"

text \<open>
  The \<^verbatim>\<open>forEach\<close> itself: the orders are those of the list read at the start, the
  state is the current one, and the order at position \<open>i\<close> executes in the environment
  \<open>envs i\<close>.
\<close>

fun forEachOrder ::
  "int \<Rightarrow> (string \<rightharpoonup> real) \<Rightarrow> (nat \<Rightarrow> env) \<Rightarrow> nat \<Rightarrow> pending_order list
     \<Rightarrow> wallet_state \<Rightarrow> wallet_state" where
  "forEachOrder startedAt currentPrices envs i [] s = s"
| "forEachOrder startedAt currentPrices envs i (order # rest) s =
     forEachOrder startedAt currentPrices envs (Suc i) rest
       (processOrder startedAt currentPrices (envs i) order s)"

definition checkAndExecuteOrders ::
  "int \<Rightarrow> (nat \<Rightarrow> env) \<Rightarrow> (string \<rightharpoonup> real) \<Rightarrow> wallet_state \<Rightarrow> wallet_state" where
  "checkAndExecuteOrders startedAt envs currentPrices s =
     forEachOrder startedAt currentPrices envs 0 (pendingOrders s) s"

section \<open>Other actions and getters\<close>

text \<open>\<open>today\<close> is \<^verbatim>\<open>new Date().toDateString()\<close>.\<close>

definition claimDailyBonus ::
  "env \<Rightarrow> string \<Rightarrow> wallet_state \<Rightarrow> (string + real) \<times> wallet_state" where
  "claimDailyBonus e today s =
     (if lastBonusClaim s = Some today then (Inl ''Already claimed today'', s)
      else
        let bonusAmount = DAILY_BONUS (userTier s)
        in if bonusAmount = 0 then (Inl ''Upgrade to get daily bonus'', s)
           else
             (Inr bonusAmount,
              s\<lparr> balance := balance s + bonusAmount,
                 lastBonusClaim := Some today,
                 transactions :=
                   \<lparr> tx_id = newId e, tx_type = TxBonus, tx_orderType = None,
                     tx_symbol = ''USD'', tx_name = ''Daily Bonus'',
                     tx_amount = bonusAmount, tx_price = 1, tx_total = bonusAmount,
                     tx_fee = 0, tx_slippage = None, tx_timestamp = now e,
                     tx_note = None \<rparr>
                   # transactions s \<rparr>))"

definition resetWallet :: "env \<Rightarrow> wallet_state \<Rightarrow> wallet_state" where
  "resetWallet e s =
     s\<lparr> balance := INITIAL_BALANCE,
        initialDeposit := INITIAL_BALANCE,
        holdings := Map.empty,
        transactions :=
          [\<lparr> tx_id = newId e, tx_type = TxDeposit, tx_orderType = None,
             tx_symbol = ''USD'', tx_name = ''Wallet Reset'',
             tx_amount = INITIAL_BALANCE, tx_price = 1, tx_total = INITIAL_BALANCE,
             tx_fee = 0, tx_slippage = None, tx_timestamp = now e, tx_note = None \<rparr>],
        pendingOrders := [],
        journalEntries := [],
        lastBonusClaim := None \<rparr>"

definition setSlippage ::
  "bool \<Rightarrow> 'n option \<Rightarrow> 'n wallet_state_of \<Rightarrow> 'n wallet_state_of" where
  "setSlippage enabled percent s =
     s\<lparr> slippageEnabled := enabled,
        slippagePercent := (case percent of Some p \<Rightarrow> p | None \<Rightarrow> slippagePercent s) \<rparr>"

definition getHolding :: "string \<Rightarrow> 'n wallet_state_of \<Rightarrow> 'n holding_of option" where
  "getHolding symbol s = holdings s symbol"

section \<open>Sequences of calls and scenarios\<close>

text \<open>
  A sequence of \<^verbatim>\<open>buy\<close> calls, each with its own arguments and environment; the
  result of a call is dropped and the next call runs on the state it left.
\<close>

fun buySequence ::
  "(env \<times> string \<times> string \<times> string \<times> real \<times> real \<times> string) list
     \<Rightarrow> wallet_state \<Rightarrow> wallet_state" where
  "buySequence [] s = s"
| "buySequence ((e, symbol, name, shortName, amount, price, color) # calls) s =
     buySequence calls (snd (buy e symbol name shortName amount price color s))"

text \<open>
  Repeated passes of \<^verbatim>\<open>checkAndExecuteOrders\<close>, each with its own starting time,
  environments and price snapshot.
\<close>

fun checkRepeatedly ::
  "(int \<times> (nat \<Rightarrow> env) \<times> (string \<rightharpoonup> real)) list \<Rightarrow> wallet_state \<Rightarrow> wallet_state" where
  "checkRepeatedly [] s = s"
| "checkRepeatedly ((startedAt, envs, currentPrices) # passes) s =
     checkRepeatedly passes (checkAndExecuteOrders startedAt envs currentPrices s)"

text \<open>
  The slippage settings under which the executed price of a sale cannot turn negative:
  slippage is off, or the percentage lies between 0 and 100 and the draw is one that
  \<^verbatim>\<open>Math.random()\<close> can return.
\<close>

definition slippageInRange :: "real \<Rightarrow> wallet_state \<Rightarrow> bool" where
  "slippageInRange rnd s =
     (if slippageEnabled s
      then 0 \<le> rnd \<and> rnd < 1 \<and> 0 \<le> slippagePercent s \<and> slippagePercent s \<le> 100
      else True)"

text \<open>
  The scenarios of the store's test suite: environments with fixed ids, times and draws;
  the wallet after \<^verbatim>\<open>setSlippage(false)\<close> and
  \<^verbatim>\<open>buy('BTCUSDT', 'Bitcoin', 'BTC', 100, 50000, '#F7931A')\<close>, which holds 0.002 BTC
  at average cost 50000; and that wallet after
  \<^verbatim>\<open>placeTakeProfit('BTCUSDT', 0.002, 55000)\<close>.
\<close>

definition envA :: env where
  "envA = \<lparr> newId = ''tx1'', now = 1000, random = 0.5 \<rparr>"

definition envB :: env where
  "envB = \<lparr> newId = ''order1'', now = 2000, random = 0.5 \<rparr>"

definition envC :: env where
  "envC = \<lparr> newId = ''order2'', now = 3000, random = 0.5 \<rparr>"

definition envD :: env where
  "envD = \<lparr> newId = ''tx2'', now = 4000, random = 0.5 \<rparr>"

definition freshWallet :: wallet_state where
  "freshWallet = setSlippage False None (initialState envA)"

definition btcWallet :: wallet_state where
  "btcWallet = snd (buy envA ''BTCUSDT'' ''Bitcoin'' ''BTC'' 100 50000 ''#F7931A'' freshWallet)"

definition takeProfitWallet :: wallet_state where
  "takeProfitWallet = snd (placeTakeProfit envB ''BTCUSDT'' 0.002 55000 btcWallet)"

text \<open>The wallet of the slippage test: \<^verbatim>\<open>setSlippage(true, 0.5)\<close>.\<close>

definition slippageWallet :: wallet_state where
  "slippageWallet = setSlippage True (Some 0.5) btcWallet"

text \<open>
  The wallet after cancelling that take-profit order and placing a second one: its order
  list holds a cancelled order and a pending one.
\<close>

definition cancelledWallet :: wallet_state where
  "cancelledWallet = snd (cancelOrder ''order1'' takeProfitWallet)"

definition twoOrdersWallet :: wallet_state where
  "twoOrdersWallet = snd (placeTakeProfit envC ''BTCUSDT'' 0.001 60000 cancelledWallet)"

section \<open>JavaScript's numbers\<close>

text \<open>
  A JavaScript number is an IEEE 754 double: a finite value, Infinity, -Infinity or NaN.
  \<open>Fin x\<close> is the finite double of value \<open>x\<close>; the two zeros are one value, read as
  +0.
\<close>

datatype jsnum = Fin real | PInf | NInf | NaN

text \<open>
  Rounding to the nearest double. A double has a mantissa of 53 bits, so the doubles
  around \<open>x\<close> are the multiples of a power of two, the quantum of \<open>x\<close>: 52 binary places
  below the leading bit of \<open>x\<close>, and never below \<open>2 powi (- 1074)\<close>, the spacing of the
  subnormal numbers. \<open>ilog2\<close> is the position of the leading bit of a positive number, the
  floor of its binary logarithm. The exact result of an operation is rounded to the
  nearest multiple of its quantum, a tie going to the even multiple; a rounded result of
  magnitude \<open>2 powi 1024\<close> or more is an infinity. \<open>isDouble x\<close> says that \<open>x\<close> is
  the value of a finite double: rounding leaves it as it is.
\<close>

definition roundTiesToEven :: "real \<Rightarrow> int" where
  "roundTiesToEven x =
     (let f = \<lfloor>x\<rfloor>; d = x - of_int f
      in if d < 1 / 2 then f else if 1 / 2 < d then f + 1 else if even f then f else f + 1)"

definition ilog2 :: "real \<Rightarrow> int" where
  "ilog2 x = (if 1 \<le> x then bitlen \<lfloor>x\<rfloor> - 1 else - bitlen (\<lceil>1 / x\<rceil> - 1))"

definition quantum :: "real \<Rightarrow> real" where
  "quantum x = 2 powi (max (ilog2 \<bar>x\<bar> - 52) (- 1074))"

definition nearestDouble :: "real \<Rightarrow> real" where
  "nearestDouble x =
     (if x = 0 then 0 else of_int (roundTiesToEven (x / quantum x)) * quantum x)"

definition toDouble :: "real \<Rightarrow> jsnum" where
  "toDouble x =
     (let y = nearestDouble x
      in if 2 powi 1024 \<le> \<bar>y\<bar> then (if 0 < y then PInf else NInf) else Fin y)"

definition isDouble :: "real \<Rightarrow> bool" where
  "isDouble x \<longleftrightarrow> nearestDouble x = x \<and> \<bar>x\<bar> < 2 powi 1024"

text \<open>
  A numeric literal of the source is the double nearest to the decimal that is written.
  \<open>MAX_VALUE\<close> is \<^verbatim>\<open>Number.MAX_VALUE\<close>, the largest finite double.
\<close>

definition js_num :: "real \<Rightarrow> jsnum" where
  "js_num x = toDouble x"

definition MAX_VALUE :: real where
  "MAX_VALUE = (2 - 2 powi (- 52)) * 2 powi 1023"

text \<open>
  The operators of the language. On finite operands they round the exact result; a
  finite number divided by zero is an infinity and zero divided by zero is NaN; the
  infinities follow the usual rules (their difference and their product with zero are
  NaN); NaN propagates, and every comparison with NaN is false.
\<close>

fun js_neg :: "jsnum \<Rightarrow> jsnum" where
  "js_neg (Fin a) = Fin (- a)"
| "js_neg PInf = NInf"
| "js_neg NInf = PInf"
| "js_neg NaN = NaN"

fun js_add :: "jsnum \<Rightarrow> jsnum \<Rightarrow> jsnum" where
  "js_add (Fin a) (Fin b) = toDouble (a + b)"
| "js_add NaN y = NaN"
| "js_add x NaN = NaN"
| "js_add PInf NInf = NaN"
| "js_add NInf PInf = NaN"
| "js_add PInf y = PInf"
| "js_add NInf y = NInf"
| "js_add (Fin a) y = y"

definition js_sub :: "jsnum \<Rightarrow> jsnum \<Rightarrow> jsnum" where
  "js_sub x y = js_add x (js_neg y)"

fun js_mul :: "jsnum \<Rightarrow> jsnum \<Rightarrow> jsnum" where
  "js_mul (Fin a) (Fin b) = toDouble (a * b)"
| "js_mul NaN y = NaN"
| "js_mul x NaN = NaN"
| "js_mul (Fin a) y = (if a = 0 then NaN else if 0 < a then y else js_neg y)"
| "js_mul x (Fin b) = (if b = 0 then NaN else if 0 < b then x else js_neg x)"
| "js_mul PInf y = y"
| "js_mul NInf y = js_neg y"

fun js_div :: "jsnum \<Rightarrow> jsnum \<Rightarrow> jsnum" where
  "js_div (Fin a) (Fin b) =
     (if b = 0 then (if a = 0 then NaN else if 0 < a then PInf else NInf)
      else toDouble (a / b))"
| "js_div NaN y = NaN"
| "js_div x NaN = NaN"
| "js_div (Fin a) y = Fin 0"
| "js_div x (Fin b) = (if 0 \<le> b then x else js_neg x)"
| "js_div x y = NaN"

fun js_less :: "jsnum \<Rightarrow> jsnum \<Rightarrow> bool" where
  "js_less (Fin a) (Fin b) = (a < b)"
| "js_less NaN y = False"
| "js_less x NaN = False"
| "js_less x NInf = False"
| "js_less PInf y = False"
| "js_less x y = True"

fun js_le :: "jsnum \<Rightarrow> jsnum \<Rightarrow> bool" where
  "js_le (Fin a) (Fin b) = (a \<le> b)"
| "js_le NaN y = False"
| "js_le x NaN = False"
| "js_le NInf y = True"
| "js_le x PInf = True"
| "js_le x y = False"

text \<open>
  The keys that every plain object inherits from \<^verbatim>\<open>Object.prototype\<close>. For such a
  symbol the lookup \<^verbatim>\<open>holdings[symbol]\<close> of the source finds the inherited property
  where the map of the model finds nothing, so a statement that a lookup finds nothing
  is made for the other symbols.
\<close>

definition objectPrototypeKeys :: "string list" where
  "objectPrototypeKeys =
     [''constructor'', ''hasOwnProperty'', ''isPrototypeOf'', ''propertyIsEnumerable'',
      ''toLocaleString'', ''toString'', ''valueOf'', ''__proto__'', ''__defineGetter__'',
      ''__defineSetter__'', ''__lookupGetter__'', ''__lookupSetter__'']"

section \<open>The store over doubles\<close>

text \<open>
  The constants, the slippage helpers and the actions \<^verbatim>\<open>buy\<close> and \<^verbatim>\<open>sell\<close>
  once more, line by line as above, with the operators and the literals of the language.
\<close>

definition TRADING_FEE_PERCENT_js :: jsnum where
  "TRADING_FEE_PERCENT_js = js_num 0.1"

definition INITIAL_BALANCE_js :: jsnum where
  "INITIAL_BALANCE_js = js_num 500"

definition calculateSlippage_js :: "jsnum \<Rightarrow> jsnum \<Rightarrow> jsnum \<Rightarrow> bool \<Rightarrow> jsnum" where
  "calculateSlippage_js rnd price slippagePct isBuy =
     (let randomFactor = js_mul rnd slippagePct;
          slippageAmount = js_mul price (js_div randomFactor (js_num 100))
      in if isBuy then slippageAmount else js_neg slippageAmount)"

definition getExecutedPrice_js :: "jsnum \<Rightarrow> jsnum \<Rightarrow> jsnum \<Rightarrow> bool \<Rightarrow> jsnum" where
  "getExecutedPrice_js rnd price slippagePct isBuy =
     (let slippage = calculateSlippage_js rnd price slippagePct isBuy
      in js_add price slippage)"

definition initialState_js :: "jsnum env_of \<Rightarrow> jsnum wallet_state_of" where
  "initialState_js e =
     \<lparr> balance = INITIAL_BALANCE_js,
       initialDeposit = INITIAL_BALANCE_js,
       holdings = Map.empty,
       transactions =
         [\<lparr> tx_id = newId e, tx_type = TxDeposit, tx_orderType = None,
            tx_symbol = ''USD'', tx_name = ''Initial Deposit'',
            tx_amount = INITIAL_BALANCE_js, tx_price = js_num 1, tx_total = INITIAL_BALANCE_js,
            tx_fee = js_num 0, tx_slippage = None, tx_timestamp = now e, tx_note = None \<rparr>],
       pendingOrders = [],
       journalEntries = [],
       userTier = Free,
       lastBonusClaim = None,
       slippageEnabled = True,
       slippagePercent = js_num 0.1 \<rparr>"

definition buy_js ::
  "jsnum env_of \<Rightarrow> string \<Rightarrow> string \<Rightarrow> string \<Rightarrow> jsnum \<Rightarrow> jsnum \<Rightarrow> string
     \<Rightarrow> jsnum wallet_state_of \<Rightarrow> (string + jsnum) \<times> jsnum wallet_state_of" where
  "buy_js e symbol name shortName amount price color s =
     (let executedPrice =
            (if slippageEnabled s
             then getExecutedPrice_js (random e) price (slippagePercent s) True
             else price);
          slippage = js_sub executedPrice price;
          fee = js_mul amount (js_div TRADING_FEE_PERCENT_js (js_num 100));
          totalCost = js_add amount fee
      in if js_less (balance s) totalCost then (Inl ''Insufficient balance'', s)
         else
           let cryptoAmount = js_div amount executedPrice;
               (newAvgPrice, newAmount) =
                 (case holdings s symbol of
                    None \<Rightarrow> (executedPrice, cryptoAmount)
                  | Some existingHolding \<Rightarrow>
                      let totalValue =
                            js_add (js_mul (h_amount existingHolding)
                                           (h_avgBuyPrice existingHolding)) amount;
                          newAmount = js_add (h_amount existingHolding) cryptoAmount
                      in (js_div totalValue newAmount, newAmount))
           in (Inr executedPrice,
               s\<lparr> balance := js_sub (balance s) totalCost,
                  holdings := (holdings s)(symbol \<mapsto>
                    \<lparr> h_symbol = symbol, h_name = name, h_shortName = shortName,
                      h_amount = newAmount, h_avgBuyPrice = newAvgPrice, h_color = color \<rparr>),
                  transactions :=
                    \<lparr> tx_id = newId e, tx_type = TxBuy, tx_orderType = Some Market,
                      tx_symbol = symbol, tx_name = name,
                      tx_amount = cryptoAmount, tx_price = executedPrice, tx_total = amount,
                      tx_fee = fee,
                      tx_slippage = (if js_less (js_num 0) slippage then Some slippage else None),
                      tx_timestamp = now e, tx_note = None \<rparr>
                    # transactions s \<rparr>))"

definition sell_js ::
  "jsnum env_of \<Rightarrow> string \<Rightarrow> jsnum \<Rightarrow> jsnum \<Rightarrow> jsnum wallet_state_of
     \<Rightarrow> (string + jsnum) \<times> jsnum wallet_state_of" where
  "sell_js e symbol amount price s =
     (case holdings s symbol of
        None \<Rightarrow> (Inl ''Insufficient holdings'', s)
      | Some holding \<Rightarrow>
          if js_less (h_amount holding) amount then (Inl ''Insufficient holdings'', s)
          else
            let executedPrice =
                  (if slippageEnabled s
                   then getExecutedPrice_js (random e) price (slippagePercent s) False
                   else price);
                slippage = js_sub price executedPrice;
                totalValue = js_mul amount executedPrice;
                fee = js_mul totalValue (js_div TRADING_FEE_PERCENT_js (js_num 100));
                netValue = js_sub totalValue fee;
                newAmount = js_sub (h_amount holding) amount;
                newHoldings =
                  (if js_le newAmount (js_num 0.00000001) then (holdings s)(symbol := None)
                   else (holdings s)(symbol \<mapsto> holding\<lparr> h_amount := newAmount \<rparr>))
            in (Inr executedPrice,
                s\<lparr> balance := js_add (balance s) netValue,
                   holdings := newHoldings,
                   transactions :=
                     \<lparr> tx_id = newId e, tx_type = TxSell, tx_orderType = Some Market,
                       tx_symbol = symbol, tx_name = h_name holding,
                       tx_amount = amount, tx_price = executedPrice, tx_total = totalValue,
                       tx_fee = fee,
                       tx_slippage = (if js_less (js_num 0) slippage then Some slippage else None),
                       tx_timestamp = now e, tx_note = None \<rparr>
                     # transactions s \<rparr>))"

text \<open>
  The scenarios over doubles. The draw of the two environments is the largest double
  below 1. The wallets are the initial one after \<^verbatim>\<open>setSlippage(false)\<close>; that
  wallet after \<^verbatim>\<open>buy('BTCUSDT', 'Bitcoin', 'BTC', 100, 0, '#F7931A')\<close>, a buy at the
  price 0 that the simulation page quotes when no price has arrived; the wallet after the
  same buy at 50000; and the latter after \<^verbatim>\<open>setSlippage(true, 0.5)\<close>.
\<close>

definition envA_js :: "jsnum env_of" where
  "envA_js = \<lparr> newId = ''tx1'', now = 1000, random = Fin (1 - 1 / 2 ^ 52) \<rparr>"

definition envD_js :: "jsnum env_of" where
  "envD_js = \<lparr> newId = ''tx2'', now = 4000, random = Fin (1 - 1 / 2 ^ 52) \<rparr>"

definition freshWallet_js :: "jsnum wallet_state_of" where
  "freshWallet_js = setSlippage False None (initialState_js envA_js)"

definition zeroPriceWallet_js :: "jsnum wallet_state_of" where
  "zeroPriceWallet_js =
     snd (buy_js envA_js ''BTCUSDT'' ''Bitcoin'' ''BTC'' (js_num 100) (js_num 0) ''#F7931A''
            freshWallet_js)"

definition btcWallet_js :: "jsnum wallet_state_of" where
  "btcWallet_js =
     snd (buy_js envA_js ''BTCUSDT'' ''Bitcoin'' ''BTC'' (js_num 100) (js_num 50000) ''#F7931A''
            freshWallet_js)"

definition slippageWallet_js :: "jsnum wallet_state_of" where
  "slippageWallet_js = setSlippage True (Some (js_num 0.5)) btcWallet_js"

section \<open>Facts about single actions\<close>

lemma deposit_prepends:
  "transactions (deposit e amount s) =
     \<lparr> tx_id = newId e, tx_type = TxDeposit, tx_orderType = None,
       tx_symbol = ''USD'', tx_name = ''Deposit'',
       tx_amount = amount, tx_price = 1, tx_total = amount,
       tx_fee = 0, tx_slippage = None, tx_timestamp = now e, tx_note = None \<rparr>
     # transactions s"
  by (simp add: deposit_def)

lemma buy_pendingOrders:
  "pendingOrders (snd (buy e symbol name shortName amount price color s)) = pendingOrders s"
  by (simp add: buy_def Let_def split: option.splits prod.splits)

lemma sell_pendingOrders:
  "pendingOrders (snd (sell e symbol amount price s)) = pendingOrders s"
  by (simp add: sell_def Let_def split: option.splits)

lemma buy_rejected:
  "amount + amount * (TRADING_FEE_PERCENT / 100) > balance s \<Longrightarrow>
   buy e symbol name shortName amount price color s = (Inl ''Insufficient balance'', s)"
  by (simp add: buy_def Let_def)

lemma buy_accepted:
  "amount + amount * (TRADING_FEE_PERCENT / 100) \<le> balance s \<Longrightarrow>
   \<exists>p s'. buy e symbol name shortName amount price color s = (Inr p, s')
      \<and> balance s' = balance s - (amount + amount * (TRADING_FEE_PERCENT / 100))"
  by (simp add: buy_def Let_def split: option.splits prod.splits)

lemma buy_balance_nonneg:
  "0 \<le> balance s \<Longrightarrow> 0 \<le> balance (snd (buy e symbol name shortName amount price color s))"
proof (cases "amount + amount * (TRADING_FEE_PERCENT / 100) > balance s")
  case True
  assume "0 \<le> balance s"
  with buy_rejected [OF True] show ?thesis by simp
next
  case False
  then have le: "amount + amount * (TRADING_FEE_PERCENT / 100) \<le> balance s" by simp
  from le buy_accepted [OF le, of e symbol name shortName price color]
  show ?thesis by auto
qed

lemma buy_settings:
  "slippageEnabled (snd (buy e symbol name shortName amount price color s)) = slippageEnabled s
   \<and> slippagePercent (snd (buy e symbol name shortName amount price color s)) = slippagePercent s"
  by (simp add: buy_def Let_def split: option.splits prod.splits)

lemma sell_settings:
  "slippageEnabled (snd (sell e symbol amount price s)) = slippageEnabled s
   \<and> slippagePercent (snd (sell e symbol amount price s)) = slippagePercent s"
  by (simp add: sell_def Let_def split: option.splits)

lemma sell_price_nonneg:
  assumes "0 \<le> price" "0 \<le> r" "r < 1" "0 \<le> sp" "sp \<le> 100"
  shows "0 \<le> getExecutedPrice r price sp False"
proof -
  have "r * sp \<le> 1 * 100"
    using assms by (intro mult_mono) auto
  then have "r * sp / 100 \<le> 1" by simp
  then have "price * (r * sp / 100) \<le> price * 1"
    using assms(1) by (rule mult_left_mono)
  then show ?thesis
    by (simp add: getExecutedPrice_def calculateSlippage_def Let_def)
qed

lemma sell_balance_nonneg:
  assumes "0 \<le> balance s" "0 \<le> amount" "0 \<le> price" "slippageInRange (random e) s"
  shows "0 \<le> balance (snd (sell e symbol amount price s))"
proof -
  define ep where
    "ep = (if slippageEnabled s
           then getExecutedPrice (random e) price (slippagePercent s) False else price)"
  have ep: "0 \<le> ep"
    using assms(3,4) sell_price_nonneg [of price "random e" "slippagePercent s"]
    by (auto simp: ep_def slippageInRange_def)
  have "0 \<le> amount * ep" using assms(2) ep by simp
  then have net: "0 \<le> amount * ep - amount * ep * (TRADING_FEE_PERCENT / 100)"
    by (simp add: TRADING_FEE_PERCENT_def)
  show ?thesis
    using assms(1) net
    by (auto simp: sell_def Let_def ep_def split: option.splits)
qed

lemma claimDailyBonus_balance_nonneg:
  "0 \<le> balance s \<Longrightarrow> 0 \<le> balance (snd (claimDailyBonus e today s))"
  by (cases "userTier s") (auto simp: claimDailyBonus_def Let_def)

lemma markOrders_fields:
  "balance (markOrders i st s) = balance s \<and> holdings (markOrders i st s) = holdings s
   \<and> transactions (markOrders i st s) = transactions s
   \<and> slippageEnabled (markOrders i st s) = slippageEnabled s
   \<and> slippagePercent (markOrders i st s) = slippagePercent s"
  by (simp add: markOrders_def)

lemma sell_no_holding:
  "holdings s symbol = None \<Longrightarrow> sell e symbol amount price s = (Inl ''Insufficient holdings'', s)"
  by (simp add: sell_def)

lemma sell_small_holding:
  "holdings s symbol = Some h \<Longrightarrow> h_amount h < amount \<Longrightarrow>
   sell e symbol amount price s = (Inl ''Insufficient holdings'', s)"
  by (simp add: sell_def)

lemma sell_accepted:
  "holdings s symbol = Some h \<Longrightarrow> amount \<le> h_amount h \<Longrightarrow>
   \<exists>p. fst (sell e symbol amount price s) = Inr p"
  by (simp add: sell_def Let_def)

lemma buy_accepted_state:
  assumes "amount + amount * (TRADING_FEE_PERCENT / 100) \<le> balance s"
    and "ep = (if slippageEnabled s
               then getExecutedPrice (random e) price (slippagePercent s) True else price)"
    and "q = (case holdings s symbol of
                None \<Rightarrow> amount / ep | Some x \<Rightarrow> h_amount x + amount / ep)"
    and "avg = (case holdings s symbol of
                  None \<Rightarrow> ep
                | Some x \<Rightarrow> (h_amount x * h_avgBuyPrice x + amount) / (h_amount x + amount / ep))"
  shows "buy e symbol name shortName amount price color s =
     (Inr ep,
      s\<lparr> balance := balance s - (amount + amount * (TRADING_FEE_PERCENT / 100)),
         holdings := (holdings s)(symbol \<mapsto>
           \<lparr> h_symbol = symbol, h_name = name, h_shortName = shortName,
             h_amount = q, h_avgBuyPrice = avg, h_color = color \<rparr>),
         transactions :=
           \<lparr> tx_id = newId e, tx_type = TxBuy, tx_orderType = Some Market,
             tx_symbol = symbol, tx_name = name, tx_amount = amount / ep, tx_price = ep,
             tx_total = amount, tx_fee = amount * (TRADING_FEE_PERCENT / 100),
             tx_slippage = (if ep - price > 0 then Some (ep - price) else None),
             tx_timestamp = now e, tx_note = None \<rparr>
           # transactions s \<rparr>)"
  using assms by (simp add: buy_def Let_def split: option.splits)

lemma sell_accepted_state:
  assumes "holdings s symbol = Some h" and "amount \<le> h_amount h"
    and "ep = (if slippageEnabled s
               then getExecutedPrice (random e) price (slippagePercent s) False else price)"
  shows "sell e symbol amount price s =
     (Inr ep,
      s\<lparr> balance := balance s + (amount * ep - amount * ep * (TRADING_FEE_PERCENT / 100)),
         holdings :=
           (if h_amount h - amount \<le> 0.00000001 then (holdings s)(symbol := None)
            else (holdings s)(symbol \<mapsto> h\<lparr> h_amount := h_amount h - amount \<rparr>)),
         transactions :=
           \<lparr> tx_id = newId e, tx_type = TxSell, tx_orderType = Some Market,
             tx_symbol = symbol, tx_name = h_name h, tx_amount = amount, tx_price = ep,
             tx_total = amount * ep, tx_fee = amount * ep * (TRADING_FEE_PERCENT / 100),
             tx_slippage = (if price - ep > 0 then Some (price - ep) else None),
             tx_timestamp = now e, tx_note = None \<rparr>
           # transactions s \<rparr>)"
  using assms by (simp add: sell_def Let_def)

lemma buy_atomic:
  "(case buy e symbol name shortName amount price color s of
      (Inl err, s') \<Rightarrow> err = ''Insufficient balance'' \<and> s' = s
    | (Inr p, s') \<Rightarrow>
        \<exists>h tx. s' = s\<lparr> balance := balance s - (amount + amount * (TRADING_FEE_PERCENT / 100)),
                          holdings := (holdings s)(symbol \<mapsto> h),
                          transactions := tx # transactions s \<rparr>
          \<and> h_symbol h = symbol \<and> tx_type tx = TxBuy \<and> tx_symbol tx = symbol
          \<and> tx_price tx = p \<and> tx_total tx = amount)"
proof (cases "amount + amount * (TRADING_FEE_PERCENT / 100) > balance s")
  case True
  then show ?thesis by (simp add: buy_rejected)
next
  case False
  then have le: "amount + amount * (TRADING_FEE_PERCENT / 100) \<le> balance s" by simp
  show ?thesis
    unfolding buy_accepted_state [OF le refl refl refl] prod.case sum.case
    by (intro exI conjI, rule refl) simp_all
qed

lemma sell_atomic:
  "(case sell e symbol amount price s of
      (Inl err, s') \<Rightarrow> err = ''Insufficient holdings'' \<and> s' = s
    | (Inr p, s') \<Rightarrow>
        \<exists>h tx. holdings s symbol = Some h
          \<and> s' = s\<lparr> balance := balance s
                         + (amount * p - amount * p * (TRADING_FEE_PERCENT / 100)),
                       holdings :=
                         (if h_amount h - amount \<le> 0.00000001 then (holdings s)(symbol := None)
                          else (holdings s)(symbol \<mapsto> h\<lparr> h_amount := h_amount h - amount \<rparr>)),
                       transactions := tx # transactions s \<rparr>
          \<and> tx_type tx = TxSell \<and> tx_symbol tx = symbol \<and> tx_price tx = p
          \<and> tx_amount tx = amount)"
proof (cases "holdings s symbol")
  case None
  then show ?thesis by (simp add: sell_no_holding)
next
  case (Some h)
  show ?thesis
  proof (cases "h_amount h < amount")
    case True
    with Some show ?thesis by (simp add: sell_small_holding)
  next
    case False
    then have le: "amount \<le> h_amount h" by simp
    show ?thesis
      unfolding sell_accepted_state [OF Some le refl] prod.case sum.case
      by (intro exI conjI, rule Some, rule refl) simp_all
  qed
qed

lemma claimDailyBonus_atomic:
  "(case claimDailyBonus e today s of
      (Inl err, s') \<Rightarrow>
        (err = ''Already claimed today'' \<or> err = ''Upgrade to get daily bonus'') \<and> s' = s
    | (Inr a, s') \<Rightarrow>
        \<exists>tx. a = DAILY_BONUS (userTier s)
          \<and> s' = s\<lparr> balance := balance s + a, lastBonusClaim := Some today,
                       transactions := tx # transactions s \<rparr>
          \<and> tx_type tx = TxBonus \<and> tx_amount tx = a)"
proof (cases "lastBonusClaim s = Some today \<or> DAILY_BONUS (userTier s) = 0")
  case True
  then show ?thesis by (auto simp: claimDailyBonus_def Let_def)
next
  case False
  then have "claimDailyBonus e today s =
     (Inr (DAILY_BONUS (userTier s)),
      s\<lparr> balance := balance s + DAILY_BONUS (userTier s),
         lastBonusClaim := Some today,
         transactions :=
           \<lparr> tx_id = newId e, tx_type = TxBonus, tx_orderType = None,
             tx_symbol = ''USD'', tx_name = ''Daily Bonus'',
             tx_amount = DAILY_BONUS (userTier s), tx_price = 1,
             tx_total = DAILY_BONUS (userTier s),
             tx_fee = 0, tx_slippage = None, tx_timestamp = now e,
             tx_note = None \<rparr>
           # transactions s \<rparr>)"
    by (simp add: claimDailyBonus_def Let_def)
  then show ?thesis
    unfolding prod.case sum.case
    by (simp only: prod.case sum.case) (intro exI conjI, rule refl, rule refl, simp_all)
qed

lemma buy_slippage_factor:
  assumes "0 \<le> r" "r < 1" "0 \<le> price"
  shows "price \<le> getExecutedPrice r price 0.5 True"
    and "getExecutedPrice r price 0.5 True \<le> price * 1.005"
proof -
  have 0: "0 \<le> price * (r * 0.5 / 100)" using assms by simp
  have "r * 0.5 / 100 \<le> 0.005" using assms by simp
  then have 1: "price * (r * 0.5 / 100) \<le> price * 0.005"
    using assms(3) by (rule mult_left_mono)
  show "price \<le> getExecutedPrice r price 0.5 True"
    using 0 by (simp add: getExecutedPrice_def calculateSlippage_def Let_def)
  show "getExecutedPrice r price 0.5 True \<le> price * 1.005"
    using 1 by (simp add: getExecutedPrice_def calculateSlippage_def Let_def algebra_simps)
qed

lemma sell_slippage_factor:
  assumes "0 \<le> r" "r < 1" "0 \<le> price"
  shows "price * 0.995 \<le> getExecutedPrice r price 0.5 False"
    and "getExecutedPrice r price 0.5 False \<le> price"
proof -
  have 0: "0 \<le> price * (r * 0.5 / 100)" using assms by simp
  have "r * 0.5 / 100 \<le> 0.005" using assms by simp
  then have 1: "price * (r * 0.5 / 100) \<le> price * 0.005"
    using assms(3) by (rule mult_left_mono)
  show "getExecutedPrice r price 0.5 False \<le> price"
    using 0 by (simp add: getExecutedPrice_def calculateSlippage_def Let_def)
  show "price * 0.995 \<le> getExecutedPrice r price 0.5 False"
    using 1 by (simp add: getExecutedPrice_def calculateSlippage_def Let_def algebra_simps)
qed

lemma buy_executedPrice:
  "buy e symbol name shortName amount price color s = (Inr p, s') \<Longrightarrow>
   p = (if slippageEnabled s then getExecutedPrice (random e) price (slippagePercent s) True
        else price)"
  by (auto simp: buy_def Let_def split: if_splits option.splits prod.splits)

lemma sell_executedPrice:
  "sell e symbol amount price s = (Inr p, s') \<Longrightarrow>
   p = (if slippageEnabled s then getExecutedPrice (random e) price (slippagePercent s) False
        else price)"
  by (auto simp: sell_def Let_def split: if_splits option.splits)

text \<open>
  The earlier \<^verbatim>\<open>buy\<close> fails exactly when the current one does and leaves the same
  balance; with slippage disabled it leaves the same holdings too. What is proved below
  about the balance and the average cost after \<^verbatim>\<open>buy\<close> thus holds for both.
\<close>

lemma buy_basic_agrees:
  "isl (fst (buy_basic e symbol name shortName amount price color s))
     = isl (fst (buy e symbol name shortName amount price color s))
   \<and> balance (snd (buy_basic e symbol name shortName amount price color s))
     = balance (snd (buy e symbol name shortName amount price color s))
   \<and> (\<not> slippageEnabled s \<longrightarrow>
        holdings (snd (buy_basic e symbol name shortName amount price color s))
          = holdings (snd (buy e symbol name shortName amount price color s)))"
  by (simp add: buy_basic_def buy_def Let_def split: option.splits)

text \<open>
  In exact arithmetic the executed price stays within 0.5 percent of a quoted price that
  is not negative, with no tolerance.
\<close>

lemma slippage_bounds_exact:
  assumes "slippageEnabled s" and "slippagePercent s = 0.5"
    and "0 \<le> random e" and "random e < 1" and "0 \<le> price"
  shows "(\<forall>p s'. buy e symbol name shortName amount price color s = (Inr p, s') \<longrightarrow>
            price \<le> p \<and> p \<le> price * 1.005)
     \<and> (\<forall>p s'. sell e symbol quantity price s = (Inr p, s') \<longrightarrow>
            price * 0.995 \<le> p \<and> p \<le> price)"
proof (intro conjI allI impI)
  fix p s'
  assume "buy e symbol name shortName amount price color s = (Inr p, s')"
  from buy_executedPrice [OF this] assms(1,2)
  have p: "p = getExecutedPrice (random e) price 0.5 True" by simp
  show "price \<le> p" "p \<le> price * 1.005"
    using buy_slippage_factor [OF assms(3,4,5)] by (simp_all add: p)
next
  fix p s'
  assume "sell e symbol quantity price s = (Inr p, s')"
  from sell_executedPrice [OF this] assms(1,2)
  have p: "p = getExecutedPrice (random e) price 0.5 False" by simp
  show "price * 0.995 \<le> p" "p \<le> price"
    using sell_slippage_factor [OF assms(3,4,5)] by (simp_all add: p)
qed

section \<open>Facts about a pass over the pending orders\<close>

lemma processOrder_settings:
  "slippageEnabled (processOrder t ps e order s) = slippageEnabled s
   \<and> slippagePercent (processOrder t ps e order s) = slippagePercent s"
proof -
  obtain rb sb where b: "buy e (o_symbol order) (o_name order) (o_shortName order)
     (o_amount order) (o_targetPrice order) (o_color order) s = (rb, sb)" by fastforce
  obtain rs ss where s: "sell e (o_symbol order) (o_amount order / o_targetPrice order)
     (o_targetPrice order) s = (rs, ss)" by fastforce
  from b buy_settings [of e "o_symbol order" "o_name order" "o_shortName order"
      "o_amount order" "o_targetPrice order" "o_color order" s]
  have b': "slippageEnabled sb = slippageEnabled s \<and> slippagePercent sb = slippagePercent s"
    by simp
  from s sell_settings [of e "o_symbol order" "o_amount order / o_targetPrice order"
      "o_targetPrice order" s]
  have s': "slippageEnabled ss = slippageEnabled s \<and> slippagePercent ss = slippagePercent s"
    by simp
  show ?thesis
    using b s b' s'
    by (simp add: processOrder_def markOrders_fields Let_def split: option.splits sum.splits)
qed

lemma processOrder_balance_nonneg:
  assumes "0 \<le> balance s" "0 \<le> o_amount order" "0 < o_targetPrice order"
    and "slippageInRange (random e) s"
  shows "0 \<le> balance (processOrder t ps e order s)"
proof -
  obtain rb sb where b: "buy e (o_symbol order) (o_name order) (o_shortName order)
     (o_amount order) (o_targetPrice order) (o_color order) s = (rb, sb)" by fastforce
  obtain rs ss where s: "sell e (o_symbol order) (o_amount order / o_targetPrice order)
     (o_targetPrice order) s = (rs, ss)" by fastforce
  from b buy_balance_nonneg [OF assms(1), of e "o_symbol order" "o_name order"
      "o_shortName order" "o_amount order" "o_targetPrice order" "o_color order"]
  have b': "0 \<le> balance sb" by simp
  have "0 \<le> o_amount order / o_targetPrice order" using assms(2,3) by simp
  from s sell_balance_nonneg [OF assms(1) this _ assms(4), of "o_targetPrice order"
      "o_symbol order"] assms(3)
  have s': "0 \<le> balance ss" by simp
  show ?thesis
    using b s b' s' assms(1)
    by (simp add: processOrder_def markOrders_fields Let_def split: option.splits sum.splits)
qed

lemma forEachOrder_balance_nonneg:
  assumes "0 \<le> balance s"
    and "\<forall>order \<in> set orders. 0 \<le> o_amount order \<and> 0 < o_targetPrice order"
    and "\<forall>i. slippageInRange (random (envs i)) s"
  shows "0 \<le> balance (forEachOrder t ps envs k orders s)"
  using assms
proof (induction orders arbitrary: s k)
  case Nil
  then show ?case by simp
next
  case (Cons order rest)
  have 1: "0 \<le> balance (processOrder t ps (envs k) order s)"
    using Cons.prems by (intro processOrder_balance_nonneg) auto
  have 2: "\<forall>order \<in> set rest. 0 \<le> o_amount order \<and> 0 < o_targetPrice order"
    using Cons.prems(2) by simp
  have 3: "\<forall>i. slippageInRange (random (envs i)) (processOrder t ps (envs k) order s)"
    using Cons.prems(3) processOrder_settings [of t ps "envs k" order s]
    by (simp add: slippageInRange_def)
  show ?case
    using Cons.IH [OF 1 2 3] by simp
qed

lemma buySequence_balance_nonneg:
  "0 \<le> balance s \<Longrightarrow> 0 \<le> balance (buySequence calls s)"
proof (induction calls arbitrary: s)
  case Nil
  then show ?case by simp
next
  case (Cons call calls)
  obtain e symbol name shortName amount price color
    where call: "call = (e, symbol, name, shortName, amount, price, color)"
    by (cases call)
  show ?case
    using Cons.IH [OF buy_balance_nonneg [OF Cons.prems,
          of e symbol name shortName amount price color]]
    by (simp add: call)
qed

lemma processOrder_terminal:
  "o_status order \<noteq> Pending \<Longrightarrow> processOrder t ps e order s = s"
  by (simp add: processOrder_def)

lemma markOrders_pendingOrders:
  "pendingOrders (markOrders x st s) =
     map (\<lambda>ord. if o_id ord = x then ord\<lparr> o_status := st \<rparr> else ord) (pendingOrders s)"
  by (simp add: markOrders_def)

lemma processOrder_pendingOrders:
  "pendingOrders (processOrder t ps e order s) = pendingOrders s
   \<or> (o_status order = Pending
       \<and> (\<exists>st. pendingOrders (processOrder t ps e order s) =
             map (\<lambda>ord. if o_id ord = o_id order then ord\<lparr> o_status := st \<rparr> else ord)
               (pendingOrders s)))"
proof -
  obtain rb sb where b: "buy e (o_symbol order) (o_name order) (o_shortName order)
     (o_amount order) (o_targetPrice order) (o_color order) s = (rb, sb)" by fastforce
  obtain rs ss where s: "sell e (o_symbol order) (o_amount order / o_targetPrice order)
     (o_targetPrice order) s = (rs, ss)" by fastforce
  from b buy_pendingOrders [of e "o_symbol order" "o_name order" "o_shortName order"
      "o_amount order" "o_targetPrice order" "o_color order" s]
  have b': "pendingOrders sb = pendingOrders s" by simp
  from s sell_pendingOrders [of e "o_symbol order" "o_amount order / o_targetPrice order"
      "o_targetPrice order" s]
  have s': "pendingOrders ss = pendingOrders s" by simp
  show ?thesis
    using b s b' s'
    by (auto simp: processOrder_def markOrders_pendingOrders Let_def
        split: option.splits sum.splits)
qed

lemma processOrder_ids:
  "map o_id (pendingOrders (processOrder t ps e order s)) = map o_id (pendingOrders s)"
proof -
  have "map o_id (map (\<lambda>ord. if o_id ord = x then ord\<lparr> o_status := st \<rparr> else ord) xs)
          = map o_id xs" for x st and xs :: "pending_order list"
    by (induction xs) auto
  then show ?thesis
    using processOrder_pendingOrders [of t ps e order s] by auto
qed

lemma processOrder_keeps:
  assumes "o_status order = Pending \<longrightarrow> o_id order \<noteq> x"
    and "i < length (pendingOrders s)" and "o_id (pendingOrders s ! i) = x"
  shows "pendingOrders (processOrder t ps e order s) ! i = pendingOrders s ! i"
  using processOrder_pendingOrders [of t ps e order s] assms by auto

lemma forEachOrder_ids:
  "map o_id (pendingOrders (forEachOrder t ps envs k orders s)) = map o_id (pendingOrders s)"
  by (induction orders arbitrary: s k) (simp_all add: processOrder_ids)

lemma forEachOrder_keeps:
  assumes "\<forall>order \<in> set orders. o_status order = Pending \<longrightarrow> o_id order \<noteq> x"
    and "i < length (pendingOrders s)" and "o_id (pendingOrders s ! i) = x"
  shows "pendingOrders (forEachOrder t ps envs k orders s) ! i = pendingOrders s ! i"
  using assms
proof (induction orders arbitrary: s k)
  case Nil
  then show ?case by simp
next
  case (Cons order rest)
  let ?s = "processOrder t ps (envs k) order s"
  have keep: "pendingOrders ?s ! i = pendingOrders s ! i"
    using Cons.prems by (intro processOrder_keeps) auto
  have len: "length (pendingOrders ?s) = length (pendingOrders s)"
    using processOrder_ids [of t ps "envs k" order s] by (metis length_map)
  have "pendingOrders (forEachOrder t ps envs (Suc k) rest ?s) ! i = pendingOrders ?s ! i"
    using Cons.prems keep len by (intro Cons.IH) auto
  then show ?case by (simp add: keep)
qed

lemma forEachOrder_terminal:
  "\<forall>order \<in> set orders. o_status order \<noteq> Pending \<Longrightarrow> forEachOrder t ps envs k orders s = s"
  by (induction orders arbitrary: s k) (simp_all add: processOrder_terminal)

lemma check_keeps:
  assumes "distinct (map o_id (pendingOrders s))"
    and "i < length (pendingOrders s)" and "o_status (pendingOrders s ! i) \<noteq> Pending"
  shows "pendingOrders (checkAndExecuteOrders t envs ps s) ! i = pendingOrders s ! i"
proof -
  have "\<forall>order \<in> set (pendingOrders s).
          o_status order = Pending \<longrightarrow> o_id order \<noteq> o_id (pendingOrders s ! i)"
  proof (intro ballI impI notI)
    fix order
    assume mem: "order \<in> set (pendingOrders s)" and pend: "o_status order = Pending"
      and same: "o_id order = o_id (pendingOrders s ! i)"
    from mem obtain j where j: "j < length (pendingOrders s)" "pendingOrders s ! j = order"
      by (auto simp: in_set_conv_nth)
    have "map o_id (pendingOrders s) ! j = map o_id (pendingOrders s) ! i"
      using j assms(2) same by simp
    moreover have "j < length (map o_id (pendingOrders s))" "i < length (map o_id (pendingOrders s))"
      using j(1) assms(2) by simp_all
    ultimately have "j = i"
      using assms(1) nth_eq_iff_index_eq [of "map o_id (pendingOrders s)" j i] by blast
    then show False using j(2) pend assms(3) by simp
  qed
  then show ?thesis
    unfolding checkAndExecuteOrders_def
    using assms(2) by (intro forEachOrder_keeps) auto
qed

lemma check_ids:
  "map o_id (pendingOrders (checkAndExecuteOrders t envs ps s)) = map o_id (pendingOrders s)"
  by (simp add: checkAndExecuteOrders_def forEachOrder_ids)

lemma checkRepeatedly_ids:
  "map o_id (pendingOrders (checkRepeatedly passes s)) = map o_id (pendingOrders s)"
  by (induction passes s rule: checkRepeatedly.induct) (simp_all add: check_ids)

lemma checkRepeatedly_keeps:
  assumes "distinct (map o_id (pendingOrders s))"
    and "i < length (pendingOrders s)" and "o_status (pendingOrders s ! i) \<noteq> Pending"
  shows "pendingOrders (checkRepeatedly passes s) ! i = pendingOrders s ! i"
  using assms
proof (induction passes s rule: checkRepeatedly.induct)
  case (1 s)
  then show ?case by simp
next
  case (2 startedAt envs currentPrices passes s)
  let ?s = "checkAndExecuteOrders startedAt envs currentPrices s"
  have keep: "pendingOrders ?s ! i = pendingOrders s ! i"
    using "2.prems" by (rule check_keeps)
  have ids: "map o_id (pendingOrders ?s) = map o_id (pendingOrders s)"
    by (rule check_ids)
  then have len: "length (pendingOrders ?s) = length (pendingOrders s)"
    by (metis length_map)
  have "pendingOrders (checkRepeatedly passes ?s) ! i = pendingOrders ?s ! i"
    using "2.prems" keep ids len by (intro "2.IH") auto
  then show ?case by (simp add: keep)
qed

section \<open>The scenarios, evaluated\<close>

lemma freshWallet_eq:
  "freshWallet =
     \<lparr> balance = 500, initialDeposit = 500, holdings = Map.empty,
       transactions =
         [\<lparr> tx_id = ''tx1'', tx_type = TxDeposit, tx_orderType = None,
            tx_symbol = ''USD'', tx_name = ''Initial Deposit'', tx_amount = 500, tx_price = 1,
            tx_total = 500, tx_fee = 0, tx_slippage = None, tx_timestamp = 1000,
            tx_note = None \<rparr>],
       pendingOrders = [], journalEntries = [],
       userTier = Free, lastBonusClaim = None,
       slippageEnabled = False, slippagePercent = 0.1 \<rparr>"
  by (simp add: freshWallet_def setSlippage_def initialState_def envA_def INITIAL_BALANCE_def)

lemma btcWallet_eq:
  "btcWallet =
     \<lparr> balance = 399.9, initialDeposit = 500,
       holdings = [''BTCUSDT'' \<mapsto>
         \<lparr> h_symbol = ''BTCUSDT'', h_name = ''Bitcoin'', h_shortName = ''BTC'',
           h_amount = 0.002, h_avgBuyPrice = 50000, h_color = ''#F7931A'' \<rparr>],
       transactions =
         [\<lparr> tx_id = ''tx1'', tx_type = TxBuy, tx_orderType = Some Market,
            tx_symbol = ''BTCUSDT'', tx_name = ''Bitcoin'', tx_amount = 0.002, tx_price = 50000,
            tx_total = 100, tx_fee = 0.1, tx_slippage = None, tx_timestamp = 1000,
            tx_note = None \<rparr>,
          \<lparr> tx_id = ''tx1'', tx_type = TxDeposit, tx_orderType = None,
            tx_symbol = ''USD'', tx_name = ''Initial Deposit'', tx_amount = 500, tx_price = 1,
            tx_total = 500, tx_fee = 0, tx_slippage = None, tx_timestamp = 1000,
            tx_note = None \<rparr>],
       pendingOrders = [], journalEntries = [],
       userTier = Free, lastBonusClaim = None,
       slippageEnabled = False, slippagePercent = 0.1 \<rparr>"
  by (simp add: btcWallet_def freshWallet_eq buy_def envA_def TRADING_FEE_PERCENT_def Let_def)

lemma takeProfitWallet_eq:
  "takeProfitWallet = btcWallet
     \<lparr> pendingOrders :=
         [\<lparr> o_id = ''order1'', o_type = TakeProfit, o_side = Sell, o_symbol = ''BTCUSDT'',
            o_name = ''Bitcoin'', o_shortName = ''BTC'', o_amount = 0.002,
            o_targetPrice = 55000, o_createdAt = 2000, o_expiresAt = None,
            o_status = Pending, o_color = ''#F7931A'' \<rparr>] \<rparr>"
  by (simp add: takeProfitWallet_def btcWallet_eq placeTakeProfit_def envB_def Let_def)

lemma check_takeProfitWallet:
  "checkAndExecuteOrders 5000 (\<lambda>i. envD) [''BTCUSDT'' \<mapsto> 56000] takeProfitWallet =
     \<lparr> balance = 399.9 + 0.001998, initialDeposit = 500,
       holdings = [''BTCUSDT'' \<mapsto>
         \<lparr> h_symbol = ''BTCUSDT'', h_name = ''Bitcoin'', h_shortName = ''BTC'',
           h_amount = 0.002 - 0.002 / 55000, h_avgBuyPrice = 50000, h_color = ''#F7931A'' \<rparr>],
       transactions =
         \<lparr> tx_id = ''tx2'', tx_type = TxSell, tx_orderType = Some Market,
            tx_symbol = ''BTCUSDT'', tx_name = ''Bitcoin'', tx_amount = 0.002 / 55000,
            tx_price = 55000, tx_total = 0.002, tx_fee = 0.000002, tx_slippage = None,
            tx_timestamp = 4000, tx_note = None \<rparr> # transactions btcWallet,
       pendingOrders =
         [\<lparr> o_id = ''order1'', o_type = TakeProfit, o_side = Sell, o_symbol = ''BTCUSDT'',
            o_name = ''Bitcoin'', o_shortName = ''BTC'', o_amount = 0.002,
            o_targetPrice = 55000, o_createdAt = 2000, o_expiresAt = None,
            o_status = Filled, o_color = ''#F7931A'' \<rparr>],
       journalEntries = [],
       userTier = Free, lastBonusClaim = None,
       slippageEnabled = False, slippagePercent = 0.1 \<rparr>"
  by (simp add: takeProfitWallet_eq btcWallet_eq checkAndExecuteOrders_def processOrder_def
      shouldExecute_def sell_def markOrders_def envD_def TRADING_FEE_PERCENT_def Let_def)

lemma cancelledWallet_eq:
  "cancelledWallet = btcWallet
     \<lparr> pendingOrders :=
         [\<lparr> o_id = ''order1'', o_type = TakeProfit, o_side = Sell, o_symbol = ''BTCUSDT'',
            o_name = ''Bitcoin'', o_shortName = ''BTC'', o_amount = 0.002,
            o_targetPrice = 55000, o_createdAt = 2000, o_expiresAt = None,
            o_status = Cancelled, o_color = ''#F7931A'' \<rparr>] \<rparr>"
  by (simp add: cancelledWallet_def takeProfitWallet_eq cancelOrder_def markOrders_def)

lemma twoOrdersWallet_eq:
  "twoOrdersWallet = btcWallet
     \<lparr> pendingOrders :=
         [\<lparr> o_id = ''order1'', o_type = TakeProfit, o_side = Sell, o_symbol = ''BTCUSDT'',
            o_name = ''Bitcoin'', o_shortName = ''BTC'', o_amount = 0.002,
            o_targetPrice = 55000, o_createdAt = 2000, o_expiresAt = None,
            o_status = Cancelled, o_color = ''#F7931A'' \<rparr>,
          \<lparr> o_id = ''order2'', o_type = TakeProfit, o_side = Sell, o_symbol = ''BTCUSDT'',
            o_name = ''Bitcoin'', o_shortName = ''BTC'', o_amount = 0.001,
            o_targetPrice = 60000, o_createdAt = 3000, o_expiresAt = None,
            o_status = Pending, o_color = ''#F7931A'' \<rparr>] \<rparr>"
  by (simp add: twoOrdersWallet_def cancelledWallet_eq btcWallet_eq placeTakeProfit_def envC_def
      Let_def)

lemma check_twoOrdersWallet:
  "map o_status (pendingOrders
     (checkAndExecuteOrders 5000 (\<lambda>i. envD) [''BTCUSDT'' \<mapsto> 61000] twoOrdersWallet))
   = [Cancelled, Filled]"
  by (simp add: twoOrdersWallet_eq btcWallet_eq checkAndExecuteOrders_def processOrder_def
      shouldExecute_def sell_def markOrders_def envD_def TRADING_FEE_PERCENT_def Let_def)

section \<open>Facts about rounding to doubles\<close>

lemma roundTiesToEven_bounds:
  "x - 1 / 2 \<le> of_int (roundTiesToEven x) \<and> of_int (roundTiesToEven x) \<le> x + 1 / 2"
  unfolding roundTiesToEven_def Let_def by (auto; linarith)

lemma roundTiesToEven_of_int: "roundTiesToEven (of_int n) = n"
  by (simp add: roundTiesToEven_def)

lemma roundTiesToEven_floor:
  "\<lfloor>x\<rfloor> \<le> roundTiesToEven x \<and> roundTiesToEven x \<le> \<lfloor>x\<rfloor> + 1"
  by (simp add: roundTiesToEven_def Let_def)

lemma roundTiesToEven_mono:
  assumes "x \<le> y"
  shows "roundTiesToEven x \<le> roundTiesToEven y"
proof (cases "\<lfloor>x\<rfloor> = \<lfloor>y\<rfloor>")
  case True
  have "x - of_int \<lfloor>y\<rfloor> \<le> y - of_int \<lfloor>y\<rfloor>" using assms by simp
  then show ?thesis
    unfolding roundTiesToEven_def Let_def True by auto
next
  case False
  have "\<lfloor>x\<rfloor> \<le> \<lfloor>y\<rfloor>" using assms by (rule floor_mono)
  with False have "\<lfloor>x\<rfloor> + 1 \<le> \<lfloor>y\<rfloor>" by simp
  then show ?thesis
    using roundTiesToEven_floor [of x] roundTiesToEven_floor [of y] by linarith
qed

lemma ilog2_bounds:
  assumes "0 < x"
  shows "2 powi (ilog2 x) \<le> x \<and> x < 2 powi (ilog2 x + 1)"
proof (cases "1 \<le> x")
  case True
  define n where "n = \<lfloor>x\<rfloor>"
  have n: "0 < n" using True by (simp add: n_def)
  have b: "1 \<le> bitlen n" using n bitlen_bounds [OF n] bitlen_nonneg [of n]
    by (smt (verit) bitlen_eq_zero_iff)
  from bitlen_bounds [OF n]
  have lo: "(2::int) ^ nat (bitlen n - 1) \<le> n" and hi: "n < (2::int) ^ nat (bitlen n)" by simp_all
  have "(2::real) ^ nat (bitlen n - 1) \<le> of_int n"
    using lo by (metis of_int_le_iff of_int_numeral of_int_power)
  also have "\<dots> \<le> x" by (simp add: n_def)
  finally have 1: "(2::real) powi (bitlen n - 1) \<le> x"
    using b by (simp add: power_int_nonneg_exp)
  have "n + 1 \<le> (2::int) ^ nat (bitlen n)" using hi by simp
  then have "of_int (n + 1) \<le> (2::real) ^ nat (bitlen n)"
    by (metis of_int_le_iff of_int_numeral of_int_power)
  moreover have "x < of_int (n + 1)" by (simp add: n_def)
  ultimately have 2: "x < (2::real) powi (bitlen n)"
    using b by (simp add: power_int_nonneg_exp)
  show ?thesis
    using True 1 2 by (simp add: ilog2_def n_def)
next
  case False
  define y where "y = 1 / x"
  define m where "m = \<lceil>y\<rceil> - 1"
  have y: "1 < y" using False assms by (simp add: y_def)
  have m: "0 < m" using y by (simp add: m_def)
  have b: "1 \<le> bitlen m" using m bitlen_nonneg [of m]
    by (smt (verit) bitlen_eq_zero_iff)
  from bitlen_bounds [OF m]
  have lo: "(2::int) ^ nat (bitlen m - 1) \<le> m" and hi: "m < (2::int) ^ nat (bitlen m)" by simp_all
  have my: "of_int m < y" "y \<le> of_int (m + 1)"
    unfolding m_def by linarith+
  have "(2::real) ^ nat (bitlen m - 1) \<le> of_int m"
    using lo by (metis of_int_le_iff of_int_numeral of_int_power)
  then have ylo: "(2::real) ^ nat (bitlen m - 1) < y" using my(1) by linarith
  have "m + 1 \<le> (2::int) ^ nat (bitlen m)" using hi by simp
  then have "of_int (m + 1) \<le> (2::real) ^ nat (bitlen m)"
    by (metis of_int_le_iff of_int_numeral of_int_power)
  then have yhi: "y \<le> (2::real) ^ nat (bitlen m)" using my(2) by linarith
  have x: "x = 1 / y" using assms by (simp add: y_def)
  have 1: "(2::real) powi (- bitlen m) \<le> x"
  proof -
    have "1 / (2::real) ^ nat (bitlen m) \<le> 1 / y"
      using yhi y by (intro divide_left_mono) auto
    then show ?thesis
      using b by (simp add: x power_int_minus_divide power_int_nonneg_exp)
  qed
  have 2: "x < (2::real) powi (- bitlen m + 1)"
  proof -
    have "1 / y < 1 / (2::real) ^ nat (bitlen m - 1)"
      using ylo y by (intro divide_strict_left_mono) auto
    moreover have "(2::real) powi (- bitlen m + 1) = 1 / 2 ^ nat (bitlen m - 1)"
      using b by (metis add.commute minus_diff_eq uminus_add_conv_diff power_int_minus_divide power_int_nonneg_exp diff_ge_0_iff_ge)
    ultimately show ?thesis by (simp add: x)
  qed
  show ?thesis
    using False 1 2 by (simp add: ilog2_def y_def m_def)
qed

lemma ilog2_mono:
  assumes "0 < x" "x \<le> y"
  shows "ilog2 x \<le> ilog2 y"
proof (rule ccontr)
  assume "\<not> ilog2 x \<le> ilog2 y"
  then have "ilog2 y + 1 \<le> ilog2 x" by simp
  then have "(2::real) powi (ilog2 y + 1) \<le> 2 powi (ilog2 x)"
    by (intro power_int_increasing) auto
  moreover have "2 powi (ilog2 x) \<le> x" using ilog2_bounds [OF assms(1)] by simp
  moreover have "y < 2 powi (ilog2 y + 1)" using ilog2_bounds [of y] assms by simp
  ultimately show False using assms(2) by linarith
qed

lemma quantum_pos: "0 < quantum x"
  by (simp add: quantum_def)

lemma quantum_mono:
  assumes "0 < x" "x \<le> y"
  shows "quantum x \<le> quantum y"
  unfolding quantum_def
  using ilog2_mono [of "\<bar>x\<bar>" "\<bar>y\<bar>"] assms by (intro power_int_increasing) auto

lemma scaled_upper:
  assumes "0 < x"
  shows "x / quantum x < 2 ^ 53"
proof -
  define e where "e = max (ilog2 x - 52) (- 1074)"
  have q: "quantum x = 2 powi e" using assms by (simp add: quantum_def e_def)
  have "x < 2 powi (ilog2 x + 1)" using ilog2_bounds [OF assms] by simp
  also have "\<dots> \<le> 2 powi (e + 53)"
    by (intro power_int_increasing) (auto simp: e_def)
  also have "\<dots> = 2 powi e * 2 ^ 53"
    by (simp add: power_int_add)
  finally show ?thesis
    using quantum_pos [of x] by (simp add: q pos_divide_less_eq mult.commute)
qed

lemma scaled_lower:
  assumes "0 < x" "- 1074 \<le> ilog2 x - 52"
  shows "2 ^ 52 \<le> x / quantum x"
proof -
  define e where "e = ilog2 x - 52"
  have "max (ilog2 x - 52) (- 1074) = ilog2 x - 52"
    using assms(2) by (rule max_absorb1)
  moreover have "\<bar>x\<bar> = x" using assms(1) by simp
  ultimately have q: "quantum x = 2 powi e"
    unfolding quantum_def e_def by (simp only:)
  have "(2::real) powi e * 2 ^ 52 = 2 powi (e + 52)"
    by (simp add: power_int_add)
  also have "\<dots> = 2 powi (ilog2 x)" by (simp add: e_def)
  also have "\<dots> \<le> x" using ilog2_bounds [OF assms(1)] by simp
  finally show ?thesis
    using quantum_pos [of x] by (simp add: q pos_le_divide_eq mult.commute)
qed

lemma nearestDouble_pos_eq:
  "0 < x \<Longrightarrow> nearestDouble x = of_int (roundTiesToEven (x / quantum x)) * quantum x"
  by (simp add: nearestDouble_def)

lemma nearestDouble_nonneg:
  assumes "0 \<le> x"
  shows "0 \<le> nearestDouble x"
proof (cases "x = 0")
  case True
  then show ?thesis by (simp add: nearestDouble_def)
next
  case False
  then have x: "0 < x" using assms by simp
  have "0 \<le> x / quantum x" using x quantum_pos [of x] by simp
  then have "0 \<le> \<lfloor>x / quantum x\<rfloor>" by simp
  then have "0 \<le> roundTiesToEven (x / quantum x)"
    using roundTiesToEven_floor [of "x / quantum x"] by linarith
  then show ?thesis
    using quantum_pos [of x] by (simp add: nearestDouble_pos_eq [OF x])
qed

lemma nearestDouble_upper:
  assumes "0 < x"
  shows "nearestDouble x \<le> 2 ^ 53 * quantum x"
proof -
  have "roundTiesToEven (x / quantum x) \<le> roundTiesToEven (of_int (2 ^ 53))"
    using scaled_upper [OF assms] by (intro roundTiesToEven_mono) simp
  then have "roundTiesToEven (x / quantum x) \<le> 2 ^ 53"
    by (simp only: roundTiesToEven_of_int)
  then have "real_of_int (roundTiesToEven (x / quantum x)) \<le> 2 ^ 53"
    by (metis of_int_le_iff of_int_numeral of_int_power)
  then show ?thesis
    using quantum_pos [of x]
    by (simp add: nearestDouble_pos_eq [OF assms] mult_right_mono)
qed

lemma nearestDouble_lower:
  assumes "0 < x" "- 1074 \<le> ilog2 x - 52"
  shows "2 ^ 52 * quantum x \<le> nearestDouble x"
proof -
  have "roundTiesToEven (of_int (2 ^ 52)) \<le> roundTiesToEven (x / quantum x)"
    using scaled_lower [OF assms] by (intro roundTiesToEven_mono) simp
  then have "2 ^ 52 \<le> roundTiesToEven (x / quantum x)"
    by (simp only: roundTiesToEven_of_int)
  then have "2 ^ 52 \<le> real_of_int (roundTiesToEven (x / quantum x))"
    by (metis of_int_le_iff of_int_numeral of_int_power)
  then show ?thesis
    using quantum_pos [of x]
    by (simp add: nearestDouble_pos_eq [OF assms(1)] mult_right_mono)
qed

lemma nearestDouble_mono:
  assumes "0 \<le> x" "x \<le> y"
  shows "nearestDouble x \<le> nearestDouble y"
proof (cases "x = 0")
  case True
  then show ?thesis
    using nearestDouble_nonneg [of y] assms by (simp add: nearestDouble_def)
next
  case False
  then have x: "0 < x" and y: "0 < y" using assms by simp_all
  show ?thesis
  proof (cases "quantum x = quantum y")
    case True
    have "x / quantum y \<le> y / quantum y"
      using assms(2) quantum_pos [of y] by (simp add: divide_right_mono)
    then have "roundTiesToEven (x / quantum y) \<le> roundTiesToEven (y / quantum y)"
      by (rule roundTiesToEven_mono)
    then show ?thesis
      using quantum_pos [of y]
      by (simp add: nearestDouble_pos_eq x y True mult_right_mono)
  next
    case False
    define ex where "ex = max (ilog2 x - 52) (- 1074)"
    define ey where "ey = max (ilog2 y - 52) (- 1074)"
    have qx: "quantum x = 2 powi ex" and qy: "quantum y = 2 powi ey"
      using x y by (simp_all add: quantum_def ex_def ey_def)
    have "ilog2 x \<le> ilog2 y" using x assms(2) by (rule ilog2_mono)
    then have "ex \<le> ey" by (simp add: ex_def ey_def)
    moreover have "ex \<noteq> ey" using False qx qy by auto
    ultimately have lt: "ex + 1 \<le> ey" by simp
    then have big: "- 1074 \<le> ilog2 y - 52" by (simp add: ex_def ey_def)
    have ey: "ey = ilog2 y - 52" using lt by (simp add: ex_def ey_def)
    have "nearestDouble x \<le> 2 ^ 53 * 2 powi ex"
      using nearestDouble_upper [OF x] by (simp add: qx)
    also have "\<dots> = 2 ^ 52 * 2 powi (ex + 1)"
      by (simp add: power_int_add)
    also have "\<dots> \<le> 2 ^ 52 * 2 powi ey"
      using lt by (intro mult_left_mono power_int_increasing) auto
    also have "\<dots> \<le> nearestDouble y"
      using nearestDouble_lower [OF y big] by (simp add: qy)
    finally show ?thesis .
  qed
qed

lemma nearestDouble_error:
  assumes "2 powi (- 1022) \<le> x"
  shows "\<bar>nearestDouble x - x\<bar> \<le> 2 powi (- 53) * x"
proof -
  have x: "0 < x"
    using assms by (smt (verit) zero_less_power_int)
  have big: "- 1074 \<le> ilog2 x - 52"
  proof (rule ccontr)
    assume "\<not> - 1074 \<le> ilog2 x - 52"
    then have "ilog2 x + 1 \<le> - 1022" by simp
    then have "(2::real) powi (ilog2 x + 1) \<le> 2 powi (- 1022)"
      by (intro power_int_increasing) auto
    then show False using ilog2_bounds [OF x] assms by linarith
  qed
  define q where "q = quantum x"
  have q: "0 < q" by (simp add: q_def quantum_pos)
  define y where "y = x / q"
  have xy: "x = y * q" using q by (simp add: y_def)
  have r: "\<bar>of_int (roundTiesToEven y) - y\<bar> \<le> 1 / 2"
    using roundTiesToEven_bounds [of y] by linarith
  have "nearestDouble x = of_int (roundTiesToEven y) * q"
    by (simp add: nearestDouble_pos_eq [OF x] q_def y_def)
  then have "nearestDouble x - x = (of_int (roundTiesToEven y) - y) * q"
    using xy by (simp add: algebra_simps)
  then have "\<bar>nearestDouble x - x\<bar> = \<bar>of_int (roundTiesToEven y) - y\<bar> * q"
    using q by (simp add: abs_mult)
  also have "\<dots> \<le> 1 / 2 * q"
    using r q by (intro mult_right_mono) auto
  also have "\<dots> \<le> 2 powi (- 53) * x"
  proof -
    have "2 ^ 52 * q \<le> x"
      using scaled_lower [OF x big] q by (simp add: q_def pos_le_divide_eq)
    then have "2 powi (- 53) * (2 ^ 52 * q) \<le> 2 powi (- 53) * x"
      by (intro mult_left_mono) auto
    then show ?thesis by simp
  qed
  finally show ?thesis .
qed

lemma nearestDouble_half_quantum:
  assumes "0 < z"
  shows "nearestDouble z \<le> z + quantum z / 2"
proof -
  have q: "0 < quantum z" by (rule quantum_pos)
  have "of_int (roundTiesToEven (z / quantum z)) \<le> z / quantum z + 1 / 2"
    using roundTiesToEven_bounds [of "z / quantum z"] by simp
  then have "of_int (roundTiesToEven (z / quantum z)) * quantum z
      \<le> (z / quantum z + 1 / 2) * quantum z"
    using q by (intro mult_right_mono) auto
  also have "\<dots> = z + quantum z / 2"
    using q by (simp add: field_simps)
  finally show ?thesis
    using assms by (simp add: nearestDouble_pos_eq)
qed

lemma nearestDouble_zero_or_quantum:
  assumes "0 < y"
  shows "nearestDouble y = 0 \<or> quantum y \<le> nearestDouble y"
proof -
  have q: "0 < quantum y" by (rule quantum_pos)
  have "0 \<le> y / quantum y" using assms q by simp
  then have "roundTiesToEven 0 \<le> roundTiesToEven (y / quantum y)"
    by (rule roundTiesToEven_mono)
  then have k: "0 \<le> roundTiesToEven (y / quantum y)"
    by (simp add: roundTiesToEven_def)
  show ?thesis
  proof (cases "roundTiesToEven (y / quantum y) = 0")
    case True
    then show ?thesis using assms by (simp add: nearestDouble_pos_eq)
  next
    case False
    then have "1 \<le> roundTiesToEven (y / quantum y)" using k by simp
    then have "(1::real) \<le> of_int (roundTiesToEven (y / quantum y))" by simp
    then have "1 * quantum y \<le> of_int (roundTiesToEven (y / quantum y)) * quantum y"
      using q by (intro mult_right_mono) auto
    then show ?thesis using assms by (simp add: nearestDouble_pos_eq)
  qed
qed

lemma quantum_le_self:
  assumes "0 < t" "quantum y \<le> t" "0 < y"
  shows "quantum t \<le> t"
proof (cases "- 1074 \<le> ilog2 t - 52")
  case True
  then have "quantum t = 2 powi (ilog2 t - 52)"
    using assms(1) by (simp add: quantum_def max_absorb1)
  also have "\<dots> \<le> 2 powi (ilog2 t)"
    by (intro power_int_increasing) auto
  also have "\<dots> \<le> t" using ilog2_bounds [OF assms(1)] by simp
  finally show ?thesis .
next
  case False
  then have "quantum t = 2 powi (- 1074)"
    using assms(1) by (simp add: quantum_def max_absorb2)
  also have "\<dots> \<le> quantum y"
    unfolding quantum_def by (intro power_int_increasing) auto
  finally show ?thesis using assms(2) by simp
qed

lemma fee_le_total:
  assumes "0 \<le> y" "0 \<le> k" "k \<le> 1 / 2"
  shows "nearestDouble (nearestDouble y * k) \<le> nearestDouble y"
proof -
  define t where "t = nearestDouble y"
  have t0: "0 \<le> t" unfolding t_def using assms(1) by (rule nearestDouble_nonneg)
  show ?thesis
  proof (cases "t * k = 0")
    case True
    have "nearestDouble (t * k) = 0" unfolding True by (simp add: nearestDouble_def)
    then show ?thesis using t0 by (simp add: t_def)
  next
    case False
    then have tpos: "0 < t" and kpos: "0 < k" using t0 assms(2) by auto
    then have ypos: "0 < y" using assms(1) by (cases "y = 0") (auto simp: t_def nearestDouble_def)
    have z: "0 < t * k" using tpos kpos by simp
    have zt: "t * k \<le> t" using tpos assms(3) by simp
    have "quantum y \<le> t"
      using nearestDouble_zero_or_quantum [OF ypos] tpos by (simp add: t_def)
    then have qt: "quantum t \<le> t" using tpos ypos by (intro quantum_le_self [of t y]) auto
    have "quantum (t * k) \<le> quantum t" using z zt by (rule quantum_mono)
    then have qz: "quantum (t * k) \<le> t" using qt by simp
    have tk: "t * k \<le> t / 2" using tpos assms(3) by simp
    have "nearestDouble (t * k) \<le> t * k + quantum (t * k) / 2"
      using z by (rule nearestDouble_half_quantum)
    also have "\<dots> \<le> t" using tk qz by simp
    finally show ?thesis by (simp add: t_def)
  qed
qed

lemma toDouble_finite:
  assumes "0 \<le> x" "x \<le> B" "nearestDouble B < 2 powi 1024"
  shows "toDouble x = Fin (nearestDouble x)"
proof -
  have "0 \<le> nearestDouble x" using assms(1) by (rule nearestDouble_nonneg)
  moreover have "nearestDouble x \<le> nearestDouble B"
    using assms(1,2) by (rule nearestDouble_mono)
  ultimately have "\<not> 2 powi 1024 \<le> \<bar>nearestDouble x\<bar>"
    using assms(3) by linarith
  then show ?thesis
    unfolding toDouble_def Let_def by (simp only: if_False)
qed

text \<open>
  The rules that evaluate a rounding at a numeral, and the doubles of the literals of the
  store.
\<close>

lemmas double_eval =
  js_num_def toDouble_def nearestDouble_def quantum_def ilog2_def compute_bitlen
  roundTiesToEven_def Let_def

lemma js_constants:
  "js_num 0 = Fin 0" "js_num 1 = Fin 1" "js_num 100 = Fin 100" "js_num 500 = Fin 500"
  "js_num 0.5 = Fin 0.5" "js_num 3 = Fin 3" "js_num 50000 = Fin 50000"
  "js_num 55000 = Fin 55000"
  "js_num 0.1 = Fin (3602879701896397 / 36028797018963968)"
  "js_num 0.001 = Fin (1152921504606847 / 1152921504606846976)"
  "js_num 0.00000001 = Fin (3022314549036573 / 302231454903657293676544)"
  by (simp_all add: double_eval)

lemma epsilon_double:
  "nearestDouble 0.00000001 = 3022314549036573 / 302231454903657293676544"
  by (simp add: double_eval)

lemma half_double: "nearestDouble (1 / 2) = 1 / 2"
  by (simp add: double_eval)

lemma slippage_rate_double:
  "nearestDouble (1 / 2 / 100) = 5764607523034235 / 1152921504606846976"
  by (simp add: double_eval)

lemma hundred_js: "js_num 100 = Fin 100"
  by (simp add: double_eval)

lemma half_js: "js_num 0.5 = Fin (1 / 2)"
  by (simp add: double_eval)

lemma powi_1024_split: "(2::real) powi 1024 = 2 powi 1000 * 2 ^ 24"
  by simp

lemma half_finite: "nearestDouble (1 / 2) < 2 powi 1024"
  by (subst half_double) simp

lemma slippage_rate_finite: "nearestDouble (1 / 2 / 100) < 2 powi 1024"
  by (subst slippage_rate_double) simp

lemma hundred_double: "nearestDouble 100 = 100" "nearestDouble 1 = 1"
  by (simp_all add: double_eval)

lemma MAX_VALUE_double: "nearestDouble MAX_VALUE = MAX_VALUE"
  by (simp add: MAX_VALUE_def double_eval)

lemma MAX_VALUE_finite: "MAX_VALUE < 2 powi 1024"
  by (simp add: MAX_VALUE_def)

lemma fee_rate_js:
  "js_div TRADING_FEE_PERCENT_js (js_num 100) = Fin (1152921504606847 / 1152921504606846976)"
  by (simp add: TRADING_FEE_PERCENT_js_def double_eval)

section \<open>Facts about the store over doubles\<close>

lemma remainder_js:
  assumes "a \<le> q" "q - a \<le> 0.00000001"
  shows "\<not> js_less (Fin q) (Fin a)"
    and "js_le (js_sub (Fin q) (Fin a)) (js_num 0.00000001)"
proof -
  show "\<not> js_less (Fin q) (Fin a)" using assms(1) by simp
  have 0: "0 \<le> q - a" using assms(1) by simp
  have fin: "toDouble (q - a) = Fin (nearestDouble (q - a))"
    using 0 assms(2) by (rule toDouble_finite) (subst epsilon_double, simp)
  have le: "nearestDouble (q - a) \<le> nearestDouble 0.00000001"
    using 0 assms(2) by (rule nearestDouble_mono)
  have eps: "js_num 0.00000001 = Fin (nearestDouble 0.00000001)"
    by (subst epsilon_double) (simp add: double_eval)
  show "js_le (js_sub (Fin q) (Fin a)) (js_num 0.00000001)"
    unfolding js_sub_def eps using le by (simp add: fin)
qed

lemma sell_js_removes:
  assumes "holdings s symbol = Some h" "\<not> js_less (h_amount h) amount"
    and "js_le (js_sub (h_amount h) amount) (js_num 0.00000001)"
  shows "(\<exists>p. fst (sell_js e symbol amount price s) = Inr p)
     \<and> getHolding symbol (snd (sell_js e symbol amount price s)) = None"
  using assms by (simp add: sell_js_def getHolding_def Let_def)

lemma slippage_amount_js:
  assumes "0 \<le> r" "r < 1" "2 powi (- 1000) \<le> p" "p \<le> 2 powi 1000"
  shows "\<exists>sl. js_mul (Fin p) (js_div (js_mul (Fin r) (Fin (1 / 2))) (js_num 100)) = Fin sl
           \<and> 0 \<le> sl
           \<and> sl \<le> p * (5764607523034235 / 1152921504606846976) * (1 + 2 powi (- 53))"
proof -
  define c :: real where "c = 5764607523034235 / 1152921504606846976"
  have c: "2 powi (- 22) \<le> c" "c \<le> 1 / 128" by (simp_all add: c_def)
  have p0: "0 < p"
    using assms(3) by (smt (verit) zero_less_power_int)
  define a where "a = nearestDouble (r * (1 / 2))"
  have a0: "0 \<le> a" using assms(1) by (simp add: a_def nearestDouble_nonneg)
  have "a \<le> nearestDouble (1 / 2)"
    unfolding a_def using assms(1,2) by (intro nearestDouble_mono) auto
  then have a1: "a \<le> 1 / 2" by (simp only: half_double)
  have ra: "js_mul (Fin r) (Fin (1 / 2)) = Fin a"
  proof -
    have "0 \<le> r * (1 / 2)" "r * (1 / 2) \<le> 1 / 2" using assms(1,2) by simp_all
    then have "toDouble (r * (1 / 2)) = Fin (nearestDouble (r * (1 / 2)))"
      using half_finite by (rule toDouble_finite)
    then show ?thesis unfolding a_def by simp
  qed
  define b where "b = nearestDouble (a / 100)"
  have b0: "0 \<le> b" using a0 by (simp add: b_def nearestDouble_nonneg)
  have "b \<le> nearestDouble (1 / 2 / 100)"
    unfolding b_def using a0 a1 by (intro nearestDouble_mono) auto
  then have b1: "b \<le> c" by (simp only: slippage_rate_double c_def)
  have ab: "js_div (Fin a) (js_num 100) = Fin b"
  proof -
    have "0 \<le> a / 100" "a / 100 \<le> 1 / 2 / 100" using a0 a1 by simp_all
    then have "toDouble (a / 100) = Fin (nearestDouble (a / 100))"
      using slippage_rate_finite by (rule toDouble_finite)
    then show ?thesis unfolding hundred_js b_def by simp
  qed
  have pb: "0 \<le> p * b" "p * b \<le> p * c"
    using p0 b0 b1 by (simp_all add: mult_left_mono)
  have pc_lo: "2 powi (- 1022) \<le> p * c"
  proof -
    have "(2::real) powi (- 1022) = 2 powi (- 1000) * 2 powi (- 22)"
      by simp
    also have "\<dots> \<le> p * c"
      using assms(3) c(1) by (intro mult_mono) auto
    finally show ?thesis .
  qed
  have err: "nearestDouble (p * c) \<le> p * c * (1 + 2 powi (- 53))"
  proof -
    define x where "x = p * c"
    define ux where "ux = 2 powi (- 53) * x"
    have "\<bar>nearestDouble x - x\<bar> \<le> ux"
      unfolding ux_def x_def by (rule nearestDouble_error [OF pc_lo])
    moreover have "x * (1 + 2 powi (- 53)) = x + ux"
      unfolding ux_def by (simp only: distrib_left mult_1_right mult.commute)
    ultimately show ?thesis unfolding x_def [symmetric] by linarith
  qed
  have pc_hi: "nearestDouble (p * c) < 2 powi 1024"
  proof -
    have "p * c * (1 + 2 powi (- 53)) \<le> 2 powi 1000 * (1 / 128) * 2"
      using assms(4) c(2) p0 by (intro mult_mono) (auto simp: c_def)
    also have "\<dots> < 2 powi 1000 * 2 ^ 24" by simp
    finally have "p * c * (1 + 2 powi (- 53)) < 2 powi 1024"
      by (simp only: powi_1024_split)
    with err show ?thesis by linarith
  qed
  define sl where "sl = nearestDouble (p * b)"
  have sl0: "0 \<le> sl" using pb(1) by (simp add: sl_def nearestDouble_nonneg)
  have "sl \<le> nearestDouble (p * c)"
    unfolding sl_def using pb by (rule nearestDouble_mono)
  then have sl1: "sl \<le> p * c * (1 + 2 powi (- 53))" using err by linarith
  have "toDouble (p * b) = Fin sl"
    unfolding sl_def using pb pc_hi by (rule toDouble_finite)
  then have "js_mul (Fin p) (js_div (js_mul (Fin r) (Fin (1 / 2))) (js_num 100)) = Fin sl"
    unfolding ra ab by simp
  then show ?thesis using sl0 sl1 unfolding c_def by blast
qed

lemma executed_buy_js:
  assumes "0 \<le> r" "r < 1" "2 powi (- 1000) \<le> p" "p \<le> 2 powi 1000" "isDouble p"
  shows "\<exists>x. getExecutedPrice_js (Fin r) (Fin p) (Fin (1 / 2)) True = Fin x
           \<and> p \<le> x \<and> x \<le> p * 1.005 * (1 + 2 powi (- 52))"
proof -
  define c :: real where "c = 5764607523034235 / 1152921504606846976"
  define u :: real where "u = 2 powi (- 53)"
  obtain sl where sl: "js_mul (Fin p) (js_div (js_mul (Fin r) (Fin (1 / 2))) (js_num 100)) = Fin sl"
      "0 \<le> sl" "sl \<le> p * c * (1 + u)"
    using slippage_amount_js [OF assms(1-4)] unfolding c_def u_def by blast
  have p0: "0 < p"
    using assms(3) by (smt (verit) zero_less_power_int)
  have lo: "2 powi (- 1022) \<le> p + sl"
  proof -
    have "(2::real) powi (- 1022) \<le> 2 powi (- 1000)" by simp
    then show ?thesis using assms(3) sl(2) by linarith
  qed
  define x where "x = nearestDouble (p + sl)"
  have "nearestDouble p \<le> x"
    unfolding x_def using p0 sl(2) by (intro nearestDouble_mono) auto
  then have px: "p \<le> x" using assms(5) by (simp add: isDouble_def)
  have err: "x \<le> (p + sl) * (1 + u)"
  proof -
    define y where "y = p + sl"
    define uy where "uy = 2 powi (- 53) * y"
    have "\<bar>nearestDouble y - y\<bar> \<le> uy"
      unfolding uy_def y_def by (rule nearestDouble_error [OF lo])
    moreover have "y * (1 + u) = y + uy"
      unfolding uy_def u_def by (simp only: distrib_left mult_1_right mult.commute)
    ultimately show ?thesis unfolding x_def y_def [symmetric] by linarith
  qed
  have A: "p + sl \<le> p * (1 + c * (1 + u))"
    using sl(3) by (simp add: algebra_simps)
  have u0: "0 \<le> 1 + u" by (simp add: u_def)
  have C: "(p + sl) * (1 + u) \<le> p * (1 + c * (1 + u)) * (1 + u)"
    using A u0 by (rule mult_right_mono)
  have D: "(1 + c * (1 + u)) * (1 + u) \<le> 1.005 * (1 + 2 powi (- 52))"
    by (simp add: c_def u_def)
  have E: "p * ((1 + c * (1 + u)) * (1 + u)) \<le> p * (1.005 * (1 + 2 powi (- 52)))"
    using D p0 by (intro mult_left_mono) auto
  have xu: "x \<le> p * 1.005 * (1 + 2 powi (- 52))"
    using err C E by (simp only: mult.assoc; linarith)
  have fin: "x < 2 powi 1024"
  proof -
    have "1.005 * (1 + 2 powi (- 52)) \<le> (2::real)" by simp
    then have "p * (1.005 * (1 + 2 powi (- 52))) \<le> p * 2"
      using p0 by (intro mult_left_mono) auto
    moreover have "x \<le> p * (1.005 * (1 + 2 powi (- 52)))"
      using xu by (simp only: mult.assoc)
    moreover have "p * 2 \<le> 2 powi 1000 * 2" using assms(4) by simp
    moreover have "(2::real) powi 1000 * 2 < 2 powi 1024" by simp
    ultimately show ?thesis by linarith
  qed
  have "0 \<le> p + sl" using p0 sl(2) by simp
  then have "toDouble (p + sl) = Fin x"
    unfolding x_def using order_refl fin [unfolded x_def] by (rule toDouble_finite)
  then have "getExecutedPrice_js (Fin r) (Fin p) (Fin (1 / 2)) True = Fin x"
    unfolding getExecutedPrice_js_def calculateSlippage_js_def Let_def sl(1) by simp
  then show ?thesis using px xu by blast
qed

lemma executed_sell_js:
  assumes "0 \<le> r" "r < 1" "2 powi (- 1000) \<le> p" "p \<le> 2 powi 1000" "isDouble p"
  shows "\<exists>x. getExecutedPrice_js (Fin r) (Fin p) (Fin (1 / 2)) False = Fin x
           \<and> p * 0.995 * (1 - 2 powi (- 52)) \<le> x \<and> x \<le> p"
proof -
  define c :: real where "c = 5764607523034235 / 1152921504606846976"
  define u :: real where "u = 2 powi (- 53)"
  obtain sl where sl: "js_mul (Fin p) (js_div (js_mul (Fin r) (Fin (1 / 2))) (js_num 100)) = Fin sl"
      "0 \<le> sl" "sl \<le> p * c * (1 + u)"
    using slippage_amount_js [OF assms(1-4)] unfolding c_def u_def by blast
  have p0: "0 < p"
    using assms(3) by (smt (verit) zero_less_power_int)
  have k: "c * (1 + u) \<le> 1 / 2" by (simp add: c_def u_def)
  have "p * (c * (1 + u)) \<le> p * (1 / 2)"
    using k p0 by (intro mult_left_mono) auto
  then have slp: "sl \<le> p / 2" using sl(3) by (simp only: mult.assoc; linarith)
  have lo: "2 powi (- 1022) \<le> p - sl"
  proof -
    have "(2::real) powi (- 1022) \<le> 2 powi (- 1000) / 2" by simp
    then show ?thesis using assms(3) slp by linarith
  qed
  define x where "x = nearestDouble (p - sl)"
  have "x \<le> nearestDouble p"
    unfolding x_def using slp p0 sl(2) by (intro nearestDouble_mono) auto
  then have xp: "x \<le> p" using assms(5) by (simp add: isDouble_def)
  have err: "(p - sl) * (1 - u) \<le> x"
  proof -
    define y where "y = p - sl"
    define uy where "uy = 2 powi (- 53) * y"
    have "\<bar>nearestDouble y - y\<bar> \<le> uy"
      unfolding uy_def y_def by (rule nearestDouble_error [OF lo])
    moreover have "y * (1 - u) = y - uy"
      unfolding uy_def u_def by (simp only: right_diff_distrib mult_1_right mult.commute)
    ultimately show ?thesis unfolding x_def y_def [symmetric] by linarith
  qed
  have A: "p * (1 - c * (1 + u)) \<le> p - sl"
    using sl(3) by (simp add: algebra_simps)
  have u0: "0 \<le> 1 - u" by (simp add: u_def)
  have C: "p * (1 - c * (1 + u)) * (1 - u) \<le> (p - sl) * (1 - u)"
    using A u0 by (rule mult_right_mono)
  have D: "0.995 * (1 - 2 powi (- 52)) \<le> (1 - c * (1 + u)) * (1 - u)"
    by (simp add: c_def u_def)
  have E: "p * (0.995 * (1 - 2 powi (- 52))) \<le> p * ((1 - c * (1 + u)) * (1 - u))"
    using D p0 by (intro mult_left_mono) auto
  have xl: "p * 0.995 * (1 - 2 powi (- 52)) \<le> x"
    using err C E by (simp only: mult.assoc; linarith)
  have fin: "nearestDouble p < 2 powi 1024"
  proof -
    have "(2::real) powi 1000 < 2 powi 1024" by simp
    then have "p < 2 powi 1024" using assms(4) by linarith
    then show ?thesis using assms(5) by (simp only: isDouble_def)
  qed
  have "0 \<le> p - sl" "p - sl \<le> p" using slp p0 sl(2) by simp_all
  then have "toDouble (p - sl) = Fin x"
    unfolding x_def using fin by (rule toDouble_finite)
  then have "getExecutedPrice_js (Fin r) (Fin p) (Fin (1 / 2)) False = Fin x"
    unfolding getExecutedPrice_js_def calculateSlippage_js_def Let_def sl(1) by simp
  then show ?thesis using xp xl by blast
qed

lemma buy_js_executedPrice:
  "buy_js e symbol name shortName amount price color s = (Inr ep, s') \<Longrightarrow>
   ep = (if slippageEnabled s
         then getExecutedPrice_js (random e) price (slippagePercent s) True else price)"
  by (auto simp: buy_js_def Let_def split: if_splits option.splits prod.splits)

lemma sell_js_executedPrice:
  "sell_js e symbol amount price s = (Inr ep, s') \<Longrightarrow>
   ep = (if slippageEnabled s
         then getExecutedPrice_js (random e) price (slippagePercent s) False else price)"
  by (auto simp: sell_js_def Let_def split: if_splits option.splits)

lemma sell_executedPrice_range_js:
  assumes "0 \<le> r" "r < 1" "0 \<le> c" "c \<le> 100" "isDouble p" "0 \<le> p"
  shows "\<exists>x. getExecutedPrice_js (Fin r) (Fin p) (Fin c) False = Fin x \<and> 0 \<le> x \<and> x \<le> p"
proof -
  have pd: "nearestDouble p = p" and pf: "nearestDouble p < 2 powi 1024"
    using assms(5,6) by (simp_all add: isDouble_def)
  have hf: "nearestDouble 100 < 2 powi 1024" "nearestDouble 1 < 2 powi 1024"
    by (simp_all only: hundred_double) simp_all
  define a where "a = nearestDouble (r * c)"
  have rc: "0 \<le> r * c" "r * c \<le> 100"
    using assms(1-4) by (simp_all add: mult_le_one mult_mono [of r 1 c 100, simplified])
  have a0: "0 \<le> a" unfolding a_def using rc(1) by (rule nearestDouble_nonneg)
  have "a \<le> nearestDouble 100" unfolding a_def using rc by (rule nearestDouble_mono)
  then have a1: "a \<le> 100" by (simp only: hundred_double)
  have ra: "js_mul (Fin r) (Fin c) = Fin a"
    using toDouble_finite [OF rc hf(1)] by (simp add: a_def)
  define b where "b = nearestDouble (a / 100)"
  have ab': "0 \<le> a / 100" "a / 100 \<le> 1" using a0 a1 by simp_all
  have b0: "0 \<le> b" unfolding b_def using ab'(1) by (rule nearestDouble_nonneg)
  have "b \<le> nearestDouble 1" unfolding b_def using ab' by (rule nearestDouble_mono)
  then have b1: "b \<le> 1" by (simp only: hundred_double)
  have ab: "js_div (Fin a) (js_num 100) = Fin b"
    using toDouble_finite [OF ab' hf(2)] unfolding hundred_js by (simp add: b_def)
  define sl where "sl = nearestDouble (p * b)"
  have pb: "0 \<le> p * b" "p * b \<le> p"
    using assms(6) b0 b1 by (simp_all add: mult_left_le)
  have sl0: "0 \<le> sl" unfolding sl_def using pb(1) by (rule nearestDouble_nonneg)
  have "sl \<le> nearestDouble p" unfolding sl_def using pb by (rule nearestDouble_mono)
  then have sl1: "sl \<le> p" by (simp only: pd)
  have psl: "js_mul (Fin p) (Fin b) = Fin sl"
    using toDouble_finite [OF pb pf] by (simp add: sl_def)
  define x where "x = nearestDouble (p - sl)"
  have d: "0 \<le> p - sl" "p - sl \<le> p" using sl0 sl1 by simp_all
  have x0: "0 \<le> x" unfolding x_def using d(1) by (rule nearestDouble_nonneg)
  have "x \<le> nearestDouble p" unfolding x_def using d by (rule nearestDouble_mono)
  then have x1: "x \<le> p" by (simp only: pd)
  have px: "js_add (Fin p) (js_neg (Fin sl)) = Fin x"
    using toDouble_finite [OF d pf] by (simp add: x_def)
  have "getExecutedPrice_js (Fin r) (Fin p) (Fin c) False = Fin x"
    unfolding getExecutedPrice_js_def calculateSlippage_js_def Let_def ra ab psl
    using px by simp
  then show ?thesis using x0 x1 by blast
qed

lemma net_value_js:
  assumes "0 \<le> a" "0 \<le> x" "a * x \<le> MAX_VALUE"
  shows "\<exists>n. js_sub (js_mul (Fin a) (Fin x))
            (js_mul (js_mul (Fin a) (Fin x)) (js_div TRADING_FEE_PERCENT_js (js_num 100)))
          = Fin n \<and> 0 \<le> n"
proof -
  define k :: real where "k = 1152921504606847 / 1152921504606846976"
  have k: "0 \<le> k" "k \<le> 1 / 2" by (simp_all add: k_def)
  have mf: "nearestDouble MAX_VALUE < 2 powi 1024"
    by (simp only: MAX_VALUE_double MAX_VALUE_finite)
  define t where "t = nearestDouble (a * x)"
  have ax: "0 \<le> a * x" using assms(1,2) by simp
  have t0: "0 \<le> t" unfolding t_def using ax by (rule nearestDouble_nonneg)
  have "t \<le> nearestDouble MAX_VALUE" unfolding t_def using ax assms(3) by (rule nearestDouble_mono)
  then have t1: "t \<le> MAX_VALUE" by (simp only: MAX_VALUE_double)
  have tv: "js_mul (Fin a) (Fin x) = Fin t"
    using toDouble_finite [OF ax assms(3) mf] by (simp add: t_def)
  define f where "f = nearestDouble (t * k)"
  have "t * k \<le> t * 1" using t0 k by (intro mult_left_mono) auto
  then have tk: "0 \<le> t * k" "t * k \<le> MAX_VALUE"
    using t0 t1 k by simp_all
  have f0: "0 \<le> f" unfolding f_def using tk(1) by (rule nearestDouble_nonneg)
  have f1: "f \<le> t" unfolding f_def t_def using ax k by (rule fee_le_total)
  have fee: "js_mul (Fin t) (Fin k) = Fin f"
    using toDouble_finite [OF tk mf] by (simp add: f_def)
  define n where "n = nearestDouble (t - f)"
  have d: "0 \<le> t - f" "t - f \<le> MAX_VALUE" using f0 f1 t1 by simp_all
  have n0: "0 \<le> n" unfolding n_def using d(1) by (rule nearestDouble_nonneg)
  have net: "js_add (Fin t) (js_neg (Fin f)) = Fin n"
    using toDouble_finite [OF d mf] by (simp add: n_def)
  show ?thesis
    unfolding tv fee_rate_js k_def [symmetric] fee js_sub_def
    using net n0 by blast
qed

lemma balance_add_js:
  assumes "js_le (Fin 0) b" "0 \<le> n"
  shows "js_le (Fin 0) (js_add b (Fin n))"
proof (cases b)
  case (Fin x)
  then have "0 \<le> x" using assms(1) by simp
  then have "0 \<le> nearestDouble (x + n)" using assms(2) by (intro nearestDouble_nonneg) simp
  then show ?thesis using Fin by (simp add: toDouble_def Let_def)
qed (use assms in simp_all)

lemma sell_js_balance_nonneg:
  assumes "js_le (Fin 0) (balance s)" "0 \<le> a" "0 \<le> p" "isDouble p" "a * p \<le> MAX_VALUE"
    and "slippageEnabled s \<longrightarrow>
           (\<exists>r c. random e = Fin r \<and> 0 \<le> r \<and> r < 1 \<and> slippagePercent s = Fin c \<and> 0 \<le> c \<and> c \<le> 100)"
  shows "js_le (Fin 0) (balance (snd (sell_js e symbol (Fin a) (Fin p) s)))"
proof -
  have "\<exists>x. (if slippageEnabled s
              then getExecutedPrice_js (random e) (Fin p) (slippagePercent s) False
              else Fin p) = Fin x \<and> 0 \<le> x \<and> x \<le> p"
  proof (cases "slippageEnabled s")
    case True
    then obtain r c where "random e = Fin r" "0 \<le> r" "r < 1" "slippagePercent s = Fin c"
        "0 \<le> c" "c \<le> 100"
      using assms(6) by blast
    then show ?thesis
      using True sell_executedPrice_range_js [of r c p] assms(3,4) by simp
  next
    case False
    then show ?thesis using assms(3) by simp
  qed
  then obtain x where ep: "(if slippageEnabled s
              then getExecutedPrice_js (random e) (Fin p) (slippagePercent s) False
              else Fin p) = Fin x" and x: "0 \<le> x" "x \<le> p"
    by blast
  have "a * x \<le> a * p" using x(2) assms(2) by (rule mult_left_mono)
  then have ax: "a * x \<le> MAX_VALUE" using assms(5) by simp
  obtain n where net: "js_sub (js_mul (Fin a) (Fin x))
            (js_mul (js_mul (Fin a) (Fin x)) (js_div TRADING_FEE_PERCENT_js (js_num 100)))
          = Fin n" and n: "0 \<le> n"
    using net_value_js [OF assms(2) x(1) ax] by blast
  have b: "js_le (Fin 0) (js_add (balance s) (Fin n))"
    using assms(1) n by (rule balance_add_js)
  define ep where "ep = (if slippageEnabled s
              then getExecutedPrice_js (random e) (Fin p) (slippagePercent s) False
              else Fin p)"
  have "balance (snd (sell_js e symbol (Fin a) (Fin p) s)) = balance s
      \<or> balance (snd (sell_js e symbol (Fin a) (Fin p) s))
          = js_add (balance s) (js_sub (js_mul (Fin a) ep)
              (js_mul (js_mul (Fin a) ep) (js_div TRADING_FEE_PERCENT_js (js_num 100))))"
    unfolding sell_js_def Let_def ep_def [symmetric]
    by (cases "holdings s symbol") simp_all
  moreover have "ep = Fin x" unfolding ep_def by (rule ep)
  ultimately have "balance (snd (sell_js e symbol (Fin a) (Fin p) s)) = balance s
      \<or> balance (snd (sell_js e symbol (Fin a) (Fin p) s)) = js_add (balance s) (Fin n)"
    using net by simp
  then show ?thesis
    using assms(1) b by auto
qed

section \<open>The scenarios over doubles, evaluated\<close>

lemma freshWallet_js_eq:
  "freshWallet_js =
     \<lparr> balance = Fin 500, initialDeposit = Fin 500, holdings = Map.empty,
       transactions =
         [\<lparr> tx_id = ''tx1'', tx_type = TxDeposit, tx_orderType = None,
            tx_symbol = ''USD'', tx_name = ''Initial Deposit'', tx_amount = Fin 500,
            tx_price = Fin 1, tx_total = Fin 500, tx_fee = Fin 0, tx_slippage = None,
            tx_timestamp = 1000, tx_note = None \<rparr>],
       pendingOrders = [], journalEntries = [],
       userTier = Free, lastBonusClaim = None,
       slippageEnabled = False,
       slippagePercent = Fin (3602879701896397 / 36028797018963968) \<rparr>"
  by (simp add: freshWallet_js_def setSlippage_def initialState_js_def envA_js_def
      INITIAL_BALANCE_js_def js_constants)

lemma zeroPriceWallet_js_holdings:
  "holdings zeroPriceWallet_js =
     [''BTCUSDT'' \<mapsto>
        \<lparr> h_symbol = ''BTCUSDT'', h_name = ''Bitcoin'', h_shortName = ''BTC'',
          h_amount = PInf, h_avgBuyPrice = Fin 0, h_color = ''#F7931A'' \<rparr>]
   \<and> slippageEnabled zeroPriceWallet_js = False"
  by (simp add: zeroPriceWallet_js_def buy_js_def freshWallet_js_eq TRADING_FEE_PERCENT_js_def
      js_sub_def double_eval)

lemma btcWallet_js_eq:
  "btcWallet_js =
     \<lparr> balance = Fin (3517557599580979 / 8796093022208), initialDeposit = Fin 500,
       holdings = [''BTCUSDT'' \<mapsto>
         \<lparr> h_symbol = ''BTCUSDT'', h_name = ''Bitcoin'', h_shortName = ''BTC'',
           h_amount = Fin (1152921504606847 / 576460752303423488),
           h_avgBuyPrice = Fin 50000, h_color = ''#F7931A'' \<rparr>],
       transactions =
         [\<lparr> tx_id = ''tx1'', tx_type = TxBuy, tx_orderType = Some Market,
            tx_symbol = ''BTCUSDT'', tx_name = ''Bitcoin'',
            tx_amount = Fin (1152921504606847 / 576460752303423488), tx_price = Fin 50000,
            tx_total = Fin 100, tx_fee = Fin (3602879701896397 / 36028797018963968),
            tx_slippage = None, tx_timestamp = 1000, tx_note = None \<rparr>,
          \<lparr> tx_id = ''tx1'', tx_type = TxDeposit, tx_orderType = None,
            tx_symbol = ''USD'', tx_name = ''Initial Deposit'', tx_amount = Fin 500,
            tx_price = Fin 1, tx_total = Fin 500, tx_fee = Fin 0, tx_slippage = None,
            tx_timestamp = 1000, tx_note = None \<rparr>],
       pendingOrders = [], journalEntries = [],
       userTier = Free, lastBonusClaim = None,
       slippageEnabled = False,
       slippagePercent = Fin (3602879701896397 / 36028797018963968) \<rparr>"
  by (simp add: btcWallet_js_def buy_js_def freshWallet_js_eq TRADING_FEE_PERCENT_js_def
      envA_js_def js_sub_def double_eval)

lemma slippageWallet_js_eq:
  "slippageWallet_js = btcWallet_js \<lparr> slippageEnabled := True, slippagePercent := Fin (1 / 2) \<rparr>"
  by (simp add: slippageWallet_js_def setSlippage_def double_eval)

lemma zeroPriceWallet_js_balance:
  "balance zeroPriceWallet_js = Fin (3517557599580979 / 8796093022208)"
  by (simp add: zeroPriceWallet_js_def buy_js_def freshWallet_js_eq TRADING_FEE_PERCENT_js_def
      js_sub_def double_eval)

section \<open>The take-profit scenario\<close>

text \<open>
  C1, as the store has it. The wallet holds 0.002 BTC at average cost 50000, with slippage
  disabled; \<^verbatim>\<open>placeTakeProfit('BTCUSDT', 0.002, 55000)\<close> succeeds, and
  \<^verbatim>\<open>checkAndExecuteOrders({BTCUSDT: 56000})\<close> marks the order filled. But the
  pass divides the order's amount by the target price, although a take-profit order
  carries a crypto amount: it sells 0.002 / 55000 BTC, the balance grows by 0.001998 and
  not by 0.002 * 55000 * (1 - 0.001) = 109.89, and the holding stays in the map with the
  quantity 0.002 - 0.002 / 55000.
\<close>

theorem take_profit_scenario:
  "getHolding ''BTCUSDT'' btcWallet =
     Some \<lparr> h_symbol = ''BTCUSDT'', h_name = ''Bitcoin'', h_shortName = ''BTC'',
            h_amount = 0.002, h_avgBuyPrice = 50000, h_color = ''#F7931A'' \<rparr>
   \<and> \<not> slippageEnabled btcWallet
   \<and> placeTakeProfit envB ''BTCUSDT'' 0.002 55000 btcWallet = (Inr ''order1'', takeProfitWallet)
   \<and> map o_status (pendingOrders takeProfitWallet) = [Pending]
   \<and> map o_status (pendingOrders
        (checkAndExecuteOrders 5000 (\<lambda>i. envD) [''BTCUSDT'' \<mapsto> 56000] takeProfitWallet))
       = [Filled]
   \<and> balance (checkAndExecuteOrders 5000 (\<lambda>i. envD) [''BTCUSDT'' \<mapsto> 56000] takeProfitWallet)
       - balance takeProfitWallet = 0.002 / 55000 * 55000 * (1 - 0.001)
   \<and> balance (checkAndExecuteOrders 5000 (\<lambda>i. envD) [''BTCUSDT'' \<mapsto> 56000] takeProfitWallet)
       - balance takeProfitWallet \<noteq> 0.002 * 55000 * (1 - 0.001)
   \<and> getHolding ''BTCUSDT''
        (checkAndExecuteOrders 5000 (\<lambda>i. envD) [''BTCUSDT'' \<mapsto> 56000] takeProfitWallet) =
       Some \<lparr> h_symbol = ''BTCUSDT'', h_name = ''Bitcoin'', h_shortName = ''BTC'',
              h_amount = 0.002 - 0.002 / 55000, h_avgBuyPrice = 50000, h_color = ''#F7931A'' \<rparr>"
  by (simp add: check_takeProfitWallet getHolding_def)
    (simp add: takeProfitWallet_eq btcWallet_eq placeTakeProfit_def envB_def Let_def)

section \<open>What the mutators validate\<close>

text \<open>
  C2, as the store has it. As stated the claim fails: no action of the store looks at the
  sign of its amount. With the amount -5, \<^verbatim>\<open>deposit\<close> lowers the balance by 5 and
  logs a transaction, \<^verbatim>\<open>buy\<close> succeeds and raises the balance by 5.005, and
  \<^verbatim>\<open>sell\<close> succeeds and lowers the balance.
\<close>

theorem nonpositive_amount_counterexample:
  "(- 5 :: real) \<le> 0
   \<and> balance (deposit envD (- 5) btcWallet) = balance btcWallet - 5
   \<and> length (transactions (deposit envD (- 5) btcWallet)) = 3
   \<and> length (transactions btcWallet) = 2
   \<and> fst (buy envD ''BTCUSDT'' ''Bitcoin'' ''BTC'' (- 5) 50000 ''#F7931A'' btcWallet) = Inr 50000
   \<and> balance (snd (buy envD ''BTCUSDT'' ''Bitcoin'' ''BTC'' (- 5) 50000 ''#F7931A'' btcWallet))
       = balance btcWallet + 5.005
   \<and> fst (sell envD ''BTCUSDT'' (- 5) 50000 btcWallet) = Inr 50000
   \<and> balance (snd (sell envD ''BTCUSDT'' (- 5) 50000 btcWallet)) = balance btcWallet - 249750"
  by (simp add: btcWallet_eq deposit_def buy_def sell_def TRADING_FEE_PERCENT_def Let_def)

text \<open>
  C2, amended. The mutators validate sufficiency only. \<^verbatim>\<open>deposit\<close> never
  rejects: for every amount, also one that is not positive, it adds the amount to the
  balance and to the initial deposit and logs one transaction. \<^verbatim>\<open>buy\<close> is
  rejected exactly when the amount plus the fee exceeds the balance, and
  \<^verbatim>\<open>sell\<close> exactly when the holding is absent or smaller than the amount; a
  rejected call returns the state unchanged, and every other call succeeds whatever the
  sign of its amount.
\<close>

theorem amount_sign_not_validated:
  "balance (deposit e amount s) = balance s + amount
   \<and> initialDeposit (deposit e amount s) = initialDeposit s + amount
   \<and> length (transactions (deposit e amount s)) = Suc (length (transactions s))
   \<and> (amount + amount * (TRADING_FEE_PERCENT / 100) > balance s \<longrightarrow>
        buy e symbol name shortName amount price color s = (Inl ''Insufficient balance'', s))
   \<and> (amount + amount * (TRADING_FEE_PERCENT / 100) \<le> balance s \<longrightarrow>
        (\<exists>p. fst (buy e symbol name shortName amount price color s) = Inr p))
   \<and> (holdings s symbol = None \<longrightarrow>
        sell e symbol amount price s = (Inl ''Insufficient holdings'', s))
   \<and> (holdings s symbol = Some h \<and> h_amount h < amount \<longrightarrow>
        sell e symbol amount price s = (Inl ''Insufficient holdings'', s))
   \<and> (holdings s symbol = Some h \<and> amount \<le> h_amount h \<longrightarrow>
        (\<exists>p. fst (sell e symbol amount price s) = Inr p))"
proof -
  have d: "balance (deposit e amount s) = balance s + amount
   \<and> initialDeposit (deposit e amount s) = initialDeposit s + amount
   \<and> length (transactions (deposit e amount s)) = Suc (length (transactions s))"
    by (simp add: deposit_def)
  have b: "amount + amount * (TRADING_FEE_PERCENT / 100) \<le> balance s \<longrightarrow>
        (\<exists>p. fst (buy e symbol name shortName amount price color s) = Inr p)"
    using buy_accepted [of amount s e symbol name shortName price color] by auto
  have r: "amount + amount * (TRADING_FEE_PERCENT / 100) > balance s \<longrightarrow>
        buy e symbol name shortName amount price color s = (Inl ''Insufficient balance'', s)"
    by (simp add: buy_rejected)
  have s1: "holdings s symbol = None \<longrightarrow>
        sell e symbol amount price s = (Inl ''Insufficient holdings'', s)"
    by (simp add: sell_no_holding)
  have s2: "holdings s symbol = Some h \<and> h_amount h < amount \<longrightarrow>
        sell e symbol amount price s = (Inl ''Insufficient holdings'', s)"
    by (simp add: sell_small_holding)
  have s3: "holdings s symbol = Some h \<and> amount \<le> h_amount h \<longrightarrow>
        (\<exists>p. fst (sell e symbol amount price s) = Inr p)"
    using sell_accepted [of s symbol h amount e price] by simp
  from d r b s1 s2 s3 show ?thesis by (intro conjI) simp_all
qed

theorem amount_sign_not_validated_witness:
  "balance (deposit envD (- 5) btcWallet) = balance btcWallet + (- 5)
   \<and> (- 5) + (- 5) * (TRADING_FEE_PERCENT / 100) \<le> balance btcWallet
   \<and> (\<exists>p. fst (buy envD ''BTCUSDT'' ''Bitcoin'' ''BTC'' (- 5) 50000 ''#F7931A'' btcWallet) = Inr p)
   \<and> holdings btcWallet ''BTCUSDT'' = Some \<lparr> h_symbol = ''BTCUSDT'', h_name = ''Bitcoin'',
         h_shortName = ''BTC'', h_amount = 0.002, h_avgBuyPrice = 50000, h_color = ''#F7931A'' \<rparr>
   \<and> (- 5 :: real) \<le> 0.002
   \<and> (\<exists>p. fst (sell envD ''BTCUSDT'' (- 5) 50000 btcWallet) = Inr p)
   \<and> 1000 + 1000 * (TRADING_FEE_PERCENT / 100) > balance btcWallet
   \<and> buy envD ''BTCUSDT'' ''Bitcoin'' ''BTC'' 1000 50000 ''#F7931A'' btcWallet
       = (Inl ''Insufficient balance'', btcWallet)
   \<and> (0.002 :: real) < 1000
   \<and> sell envD ''BTCUSDT'' 1000 50000 btcWallet = (Inl ''Insufficient holdings'', btcWallet)
   \<and> holdings btcWallet ''ETHUSDT'' = None
   \<and> sell envD ''ETHUSDT'' 1000 50000 btcWallet = (Inl ''Insufficient holdings'', btcWallet)"
proof -
  let ?h = "\<lparr> h_symbol = ''BTCUSDT'', h_name = ''Bitcoin'',
         h_shortName = ''BTC'', h_amount = 0.002, h_avgBuyPrice = 50000, h_color = ''#F7931A'' \<rparr>"
  have hs: "holdings btcWallet ''BTCUSDT'' = Some ?h" "holdings btcWallet ''ETHUSDT'' = None"
    by (simp_all add: btcWallet_eq)
  have lo: "(- 5) + (- 5) * (TRADING_FEE_PERCENT / 100) \<le> balance btcWallet"
    by (simp add: btcWallet_eq TRADING_FEE_PERCENT_def)
  have hi: "1000 + 1000 * (TRADING_FEE_PERCENT / 100) > balance btcWallet"
    by (simp add: btcWallet_eq TRADING_FEE_PERCENT_def)
  show ?thesis
    using hs lo hi
      amount_sign_not_validated [of envD "- 5" btcWallet "''BTCUSDT''" "''Bitcoin''" "''BTC''"
        50000 "''#F7931A''" ?h]
      amount_sign_not_validated [of envD 1000 btcWallet "''BTCUSDT''" "''Bitcoin''" "''BTC''"
        50000 "''#F7931A''" ?h]
      amount_sign_not_validated [of envD 1000 btcWallet "''ETHUSDT''" "''Bitcoin''" "''BTC''"
        50000 "''#F7931A''" ?h]
    by simp
qed

section \<open>The balance after the other actions\<close>

text \<open>
  C3, as the store has it. As stated the claim fails: \<^verbatim>\<open>deposit\<close> and
  \<^verbatim>\<open>sell\<close> check neither the sign of their amount nor the balance, and
  \<^verbatim>\<open>deposit\<close> cannot fail at all, so a deposit of -600 takes a balance of 500 to
  -100.
\<close>

theorem deposit_negative_counterexample:
  "0 \<le> balance freshWallet
   \<and> balance (deposit envD (- 600) freshWallet) = - 100
   \<and> balance (deposit envD (- 600) freshWallet) < 0"
  by (simp add: freshWallet_eq deposit_def)

text \<open>
  C3, amended. All numbers are finite: no balance, amount, quantity, price or draw is
  Infinity or NaN. From a balance that is not negative: every \<^verbatim>\<open>buy\<close> and every
  \<^verbatim>\<open>claimDailyBonus\<close> leaves the balance not negative, and a \<^verbatim>\<open>buy\<close> that
  needs more than the balance is rejected with the state unchanged; \<^verbatim>\<open>deposit\<close>
  leaves it not negative when its amount is not negative; \<^verbatim>\<open>sell\<close> leaves it
  not negative when amount and price are not negative, their product does not exceed
  \<^verbatim>\<open>Number.MAX_VALUE\<close> and the slippage settings are in range; and a pass of
  \<^verbatim>\<open>checkAndExecuteOrders\<close> leaves it not negative when every order has an amount
  that is not negative and at most \<open>2 powi 1023\<close>, a positive target price and a quotient
  of the two that does not exceed \<^verbatim>\<open>Number.MAX_VALUE\<close>, with the slippage settings
  in range. The bounds keep the product and the quotient that \<^verbatim>\<open>sell\<close> and the
  pass compute from overflowing to Infinity, from which the net value of a sale would be
  Infinity - Infinity = NaN.

  For \<^verbatim>\<open>sell\<close> the statement also holds over doubles, with every rounding: from a
  balance \<open>b\<close> with \<^verbatim>\<open>0 <= b\<close>, a finite amount that is not negative, a price that
  is a double and not negative, a product of the two of at most \<^verbatim>\<open>Number.MAX_VALUE\<close>
  and slippage either disabled or with a finite draw at least 0 and below 1 and a finite
  percentage between 0 and 100, the balance \<open>b'\<close> after \<^verbatim>\<open>sell\<close> satisfies
  \<^verbatim>\<open>0 <= b'\<close>, so it is neither negative nor NaN, whatever the holdings are, an
  infinite quantity included.
\<close>

theorem balance_stays_nonneg:
  assumes "0 \<le> balance s"
  shows "0 \<le> balance (snd (buy e symbol name shortName amount price color s))
    \<and> (rejAmount + rejAmount * (TRADING_FEE_PERCENT / 100) > balance s \<longrightarrow>
         buy e symbol name shortName rejAmount price color s = (Inl ''Insufficient balance'', s))
    \<and> 0 \<le> balance (snd (claimDailyBonus e today s))
    \<and> (0 \<le> depositAmount \<longrightarrow> 0 \<le> balance (deposit e depositAmount s))
    \<and> (0 \<le> sellAmount \<and> 0 \<le> sellPrice \<and> sellAmount * sellPrice \<le> MAX_VALUE
         \<and> slippageInRange (random e) s \<longrightarrow>
         0 \<le> balance (snd (sell e symbol sellAmount sellPrice s)))
    \<and> ((\<forall>order \<in> set (pendingOrders s). 0 \<le> o_amount order \<and> o_amount order \<le> 2 powi 1023
            \<and> 0 < o_targetPrice order \<and> o_amount order / o_targetPrice order \<le> MAX_VALUE)
         \<and> (\<forall>i. slippageInRange (random (envs i)) s) \<longrightarrow>
         0 \<le> balance (checkAndExecuteOrders startedAt envs currentPrices s))
    \<and> (js_le (Fin 0) (balance sj) \<and> 0 \<le> a \<and> 0 \<le> p \<and> isDouble p \<and> a * p \<le> MAX_VALUE
         \<and> (slippageEnabled sj \<longrightarrow>
               (\<exists>r c. random ej = Fin r \<and> 0 \<le> r \<and> r < 1
                      \<and> slippagePercent sj = Fin c \<and> 0 \<le> c \<and> c \<le> 100)) \<longrightarrow>
         js_le (Fin 0) (balance (snd (sell_js ej symbol (Fin a) (Fin p) sj))))"
proof -
  have d: "0 \<le> depositAmount \<longrightarrow> 0 \<le> balance (deposit e depositAmount s)"
    using assms by (simp add: deposit_def)
  have p: "(\<forall>order \<in> set (pendingOrders s). 0 \<le> o_amount order \<and> o_amount order \<le> 2 powi 1023
            \<and> 0 < o_targetPrice order \<and> o_amount order / o_targetPrice order \<le> MAX_VALUE)
         \<and> (\<forall>i. slippageInRange (random (envs i)) s) \<longrightarrow>
         0 \<le> balance (checkAndExecuteOrders startedAt envs currentPrices s)"
  proof
    assume a: "(\<forall>order \<in> set (pendingOrders s). 0 \<le> o_amount order
            \<and> o_amount order \<le> 2 powi 1023
            \<and> 0 < o_targetPrice order \<and> o_amount order / o_targetPrice order \<le> MAX_VALUE)
         \<and> (\<forall>i. slippageInRange (random (envs i)) s)"
    then have 1: "\<forall>order \<in> set (pendingOrders s). 0 \<le> o_amount order \<and> 0 < o_targetPrice order"
      by blast
    from a have 2: "\<forall>i. slippageInRange (random (envs i)) s"
      by blast
    show "0 \<le> balance (checkAndExecuteOrders startedAt envs currentPrices s)"
      unfolding checkAndExecuteOrders_def
      by (rule forEachOrder_balance_nonneg [OF assms 1 2])
  qed
  have q: "0 \<le> sellAmount \<and> 0 \<le> sellPrice \<and> sellAmount * sellPrice \<le> MAX_VALUE
         \<and> slippageInRange (random e) s \<longrightarrow>
         0 \<le> balance (snd (sell e symbol sellAmount sellPrice s))"
    using sell_balance_nonneg [OF assms] by blast
  have r: "rejAmount + rejAmount * (TRADING_FEE_PERCENT / 100) > balance s \<longrightarrow>
         buy e symbol name shortName rejAmount price color s = (Inl ''Insufficient balance'', s)"
    using buy_rejected by blast
  have j: "js_le (Fin 0) (balance sj) \<and> 0 \<le> a \<and> 0 \<le> p \<and> isDouble p \<and> a * p \<le> MAX_VALUE
         \<and> (slippageEnabled sj \<longrightarrow>
               (\<exists>r c. random ej = Fin r \<and> 0 \<le> r \<and> r < 1
                      \<and> slippagePercent sj = Fin c \<and> 0 \<le> c \<and> c \<le> 100)) \<longrightarrow>
         js_le (Fin 0) (balance (snd (sell_js ej symbol (Fin a) (Fin p) sj)))"
    using sell_js_balance_nonneg [of sj a p ej symbol] by blast
  show ?thesis
    using d p q r j buy_balance_nonneg [OF assms] claimDailyBonus_balance_nonneg [OF assms]
    by blast
qed

theorem balance_stays_nonneg_witness:
  "0 \<le> balance takeProfitWallet
   \<and> 0 \<le> balance (snd (buy envD ''BTCUSDT'' ''Bitcoin'' ''BTC'' 100 50000 ''#F7931A''
                         takeProfitWallet))
   \<and> 1000 + 1000 * (TRADING_FEE_PERCENT / 100) > balance takeProfitWallet
   \<and> buy envD ''BTCUSDT'' ''Bitcoin'' ''BTC'' 1000 50000 ''#F7931A'' takeProfitWallet
       = (Inl ''Insufficient balance'', takeProfitWallet)
   \<and> 0 \<le> balance (snd (claimDailyBonus envD ''Mon Nov 02 2026'' takeProfitWallet))
   \<and> 0 \<le> balance (deposit envD 50 takeProfitWallet)
   \<and> 0.001 * 55000 \<le> MAX_VALUE
   \<and> slippageInRange (random envD) takeProfitWallet
   \<and> 0 \<le> balance (snd (sell envD ''BTCUSDT'' 0.001 55000 takeProfitWallet))
   \<and> map (\<lambda>order. (o_amount order, o_targetPrice order)) (pendingOrders takeProfitWallet)
       = [(0.002, 55000)]
   \<and> 0.002 \<le> (2::real) powi 1023 \<and> 0.002 / 55000 \<le> MAX_VALUE
   \<and> 0 \<le> balance (checkAndExecuteOrders 5000 (\<lambda>i. envD) [''BTCUSDT'' \<mapsto> 56000]
                        takeProfitWallet)
   \<and> js_le (Fin 0) (balance slippageWallet_js) \<and> isDouble 55000
   \<and> slippageEnabled slippageWallet_js \<and> random envD_js = Fin (1 - 1 / 2 ^ 52)
   \<and> slippagePercent slippageWallet_js = Fin (1 / 2)
   \<and> js_le (Fin 0) (balance (snd (sell_js envD_js ''BTCUSDT'' (Fin 0.001) (Fin 55000)
                                     slippageWallet_js)))
   \<and> js_le (Fin 0) (balance zeroPriceWallet_js) \<and> \<not> slippageEnabled zeroPriceWallet_js
   \<and> map_option h_amount (holdings zeroPriceWallet_js ''BTCUSDT'') = Some PInf
   \<and> js_le (Fin 0) (balance (snd (sell_js envD_js ''BTCUSDT'' (Fin 0.001) (Fin 55000)
                                     zeroPriceWallet_js)))"
proof -
  have h: "0 \<le> balance takeProfitWallet"
    by (simp add: takeProfitWallet_eq btcWallet_eq)
  have r: "1000 + 1000 * (TRADING_FEE_PERCENT / 100) > balance takeProfitWallet"
    by (simp add: takeProfitWallet_eq btcWallet_eq TRADING_FEE_PERCENT_def)
  have sl: "slippageInRange (random envD) takeProfitWallet"
    by (simp add: slippageInRange_def takeProfitWallet_eq btcWallet_eq)
  have os: "map (\<lambda>order. (o_amount order, o_targetPrice order)) (pendingOrders takeProfitWallet)
       = [(0.002, 55000)]"
    by (simp add: takeProfitWallet_eq)
  have m1: "0.001 * 55000 \<le> MAX_VALUE"
    by (simp add: MAX_VALUE_def)
  have m2: "0.002 \<le> (2::real) powi 1023"
    by simp
  have m3: "0.002 / 55000 \<le> MAX_VALUE"
    by (simp add: MAX_VALUE_def)
  have os': "\<forall>order \<in> set (pendingOrders takeProfitWallet).
       0 \<le> o_amount order \<and> o_amount order \<le> 2 powi 1023
       \<and> 0 < o_targetPrice order \<and> o_amount order / o_targetPrice order \<le> MAX_VALUE"
    using m2 m3 by (simp add: takeProfitWallet_eq)
  have j1: "js_le (Fin 0) (balance slippageWallet_js)"
    by (simp add: slippageWallet_js_eq btcWallet_js_eq)
  have j2: "isDouble 55000"
    by (simp add: isDouble_def double_eval)
  have j3: "slippageEnabled slippageWallet_js" "random envD_js = Fin (1 - 1 / 2 ^ 52)"
    "slippagePercent slippageWallet_js = Fin (1 / 2)"
    by (simp_all add: slippageWallet_js_eq envD_js_def)
  have j4: "\<exists>r c. random envD_js = Fin r \<and> 0 \<le> r \<and> r < 1
       \<and> slippagePercent slippageWallet_js = Fin c \<and> 0 \<le> c \<and> c \<le> 100"
    unfolding j3 by (intro exI conjI, rule refl, simp, simp, rule refl, simp, simp)
  have z1: "js_le (Fin 0) (balance zeroPriceWallet_js)"
    by (simp add: zeroPriceWallet_js_balance)
  have z2: "\<not> slippageEnabled zeroPriceWallet_js"
    by (simp add: zeroPriceWallet_js_holdings)
  have z3: "map_option h_amount (holdings zeroPriceWallet_js ''BTCUSDT'') = Some PInf"
    by (simp add: zeroPriceWallet_js_holdings)
  have t: "0 \<le> balance (snd (buy envD ''BTCUSDT'' ''Bitcoin'' ''BTC'' 100 50000 ''#F7931A''
                         takeProfitWallet))
   \<and> buy envD ''BTCUSDT'' ''Bitcoin'' ''BTC'' 1000 50000 ''#F7931A'' takeProfitWallet
       = (Inl ''Insufficient balance'', takeProfitWallet)
   \<and> 0 \<le> balance (snd (claimDailyBonus envD ''Mon Nov 02 2026'' takeProfitWallet))
   \<and> 0 \<le> balance (deposit envD 50 takeProfitWallet)
   \<and> 0 \<le> balance (snd (sell envD ''BTCUSDT'' 0.001 55000 takeProfitWallet))
   \<and> 0 \<le> balance (checkAndExecuteOrders 5000 (\<lambda>i. envD) [''BTCUSDT'' \<mapsto> 56000]
                        takeProfitWallet)
   \<and> js_le (Fin 0) (balance (snd (sell_js envD_js ''BTCUSDT'' (Fin 0.001) (Fin 55000)
                                     slippageWallet_js)))"
    using r sl os' m1 j1 j2 j3(1) j4
      balance_stays_nonneg [OF h, where e = envD and symbol = "''BTCUSDT''"
        and name = "''Bitcoin''" and shortName = "''BTC''" and amount = 100
        and price = 50000 and color = "''#F7931A''" and rejAmount = 1000
        and today = "''Mon Nov 02 2026''" and depositAmount = 50 and sellAmount = "0.001"
        and sellPrice = 55000 and envs = "\<lambda>i. envD" and startedAt = 5000
        and currentPrices = "[''BTCUSDT'' \<mapsto> 56000]" and sj = slippageWallet_js
        and a = "0.001" and p = 55000 and ej = envD_js]
    by simp
  have u: "js_le (Fin 0) (balance (snd (sell_js envD_js ''BTCUSDT'' (Fin 0.001) (Fin 55000)
                                     zeroPriceWallet_js)))"
    using z1 z2 m1 j2
      balance_stays_nonneg [OF h, where sj = zeroPriceWallet_js and a = "0.001" and p = 55000
          and ej = envD_js and symbol = "''BTCUSDT''",
        THEN conjunct2, THEN conjunct2, THEN conjunct2, THEN conjunct2, THEN conjunct2,
        THEN conjunct2]
    by simp
  show ?thesis
    using h r sl os m1 m2 m3 j1 j2 j3 z1 z2 z3 t u by simp
qed

section \<open>Buying never drives the balance negative\<close>

text \<open>
  C4. No sequence of \<^verbatim>\<open>buy\<close> calls, whatever their arguments, takes a balance that
  is not negative below zero; and every \<^verbatim>\<open>buy\<close> whose required cash (the notional
  plus the fee) exceeds the balance returns the error \<^verbatim>\<open>Insufficient balance\<close> with
  the state exactly as it was.
\<close>

theorem buy_never_negative:
  "(0 \<le> balance s \<longrightarrow> 0 \<le> balance (buySequence calls s))
   \<and> (amount + amount * (TRADING_FEE_PERCENT / 100) > balance s \<longrightarrow>
        buy e symbol name shortName amount price color s = (Inl ''Insufficient balance'', s))"
  using buySequence_balance_nonneg [of s calls] buy_rejected by blast

theorem buy_never_negative_witness:
  "0 \<le> balance freshWallet
   \<and> 0 \<le> balance (buySequence
        [(envA, ''BTCUSDT'', ''Bitcoin'', ''BTC'', 100, 50000, ''#F7931A''),
         (envD, ''BTCUSDT'', ''Bitcoin'', ''BTC'', 1000, 50000, ''#F7931A'')] freshWallet)
   \<and> 1000 + 1000 * (TRADING_FEE_PERCENT / 100) > balance freshWallet
   \<and> buy envA ''BTCUSDT'' ''Bitcoin'' ''BTC'' 1000 50000 ''#F7931A'' freshWallet
       = (Inl ''Insufficient balance'', freshWallet)
   \<and> balance freshWallet = 500"
proof -
  have h: "0 \<le> balance freshWallet" by (simp add: freshWallet_eq)
  have c: "1000 + 1000 * (TRADING_FEE_PERCENT / 100) > balance freshWallet"
    by (simp add: freshWallet_eq TRADING_FEE_PERCENT_def)
  show ?thesis
    using h c buy_never_negative [of freshWallet
        "[(envA, ''BTCUSDT'', ''Bitcoin'', ''BTC'', 100, 50000, ''#F7931A''),
          (envD, ''BTCUSDT'', ''Bitcoin'', ''BTC'', 1000, 50000, ''#F7931A'')]"
        1000 envA "''BTCUSDT''" "''Bitcoin''" "''BTC''" 50000 "''#F7931A''"]
    by (simp add: freshWallet_eq)
qed

section \<open>Average cost\<close>

text \<open>
  C5. With slippage disabled and no holding in the symbol, buying the notional \<open>n1\<close> at
  price \<open>p1\<close> and then \<open>n2\<close> at \<open>p2\<close> (both affordable) executes at the quoted
  prices; the first buy creates the holding with quantity \<open>q1 = n1 / p1\<close> and average
  cost \<open>p1\<close>, and the second leaves quantity \<open>q1 + q2\<close> with \<open>q2 = n2 / p2\<close> and
  average cost \<open>(q1 * p1 + q2 * p2) / (q1 + q2)\<close>. The prices and the total quantity
  are not zero.
\<close>

theorem buy_average_cost:
  assumes "\<not> slippageEnabled s" and "holdings s symbol = None"
    and "p1 \<noteq> 0" and "p2 \<noteq> 0" and "n1 / p1 + n2 / p2 \<noteq> 0"
    and "n1 + n1 * (TRADING_FEE_PERCENT / 100) \<le> balance s"
    and "n2 + n2 * (TRADING_FEE_PERCENT / 100)
           \<le> balance s - (n1 + n1 * (TRADING_FEE_PERCENT / 100))"
  shows "let q1 = n1 / p1; q2 = n2 / p2;
             s1 = snd (buy e1 symbol name shortName n1 p1 color s);
             s2 = snd (buy e2 symbol name shortName n2 p2 color s1)
         in fst (buy e1 symbol name shortName n1 p1 color s) = Inr p1
          \<and> getHolding symbol s1 =
              Some \<lparr> h_symbol = symbol, h_name = name, h_shortName = shortName,
                     h_amount = q1, h_avgBuyPrice = p1, h_color = color \<rparr>
          \<and> fst (buy e2 symbol name shortName n2 p2 color s1) = Inr p2
          \<and> getHolding symbol s2 =
              Some \<lparr> h_symbol = symbol, h_name = name, h_shortName = shortName,
                     h_amount = q1 + q2,
                     h_avgBuyPrice = (q1 * p1 + q2 * p2) / (q1 + q2), h_color = color \<rparr>"
proof -
  define s1 where "s1 = snd (buy e1 symbol name shortName n1 p1 color s)"
  have b1: "buy e1 symbol name shortName n1 p1 color s =
     (Inr p1,
      s\<lparr> balance := balance s - (n1 + n1 * (TRADING_FEE_PERCENT / 100)),
         holdings := (holdings s)(symbol \<mapsto>
           \<lparr> h_symbol = symbol, h_name = name, h_shortName = shortName,
             h_amount = n1 / p1, h_avgBuyPrice = p1, h_color = color \<rparr>),
         transactions :=
           \<lparr> tx_id = newId e1, tx_type = TxBuy, tx_orderType = Some Market,
             tx_symbol = symbol, tx_name = name, tx_amount = n1 / p1, tx_price = p1,
             tx_total = n1, tx_fee = n1 * (TRADING_FEE_PERCENT / 100),
             tx_slippage = (if p1 - p1 > 0 then Some (p1 - p1) else None),
             tx_timestamp = now e1, tx_note = None \<rparr>
           # transactions s \<rparr>)"
    by (rule buy_accepted_state [OF assms(6)]) (simp_all add: assms(1,2))
  have s1: "\<not> slippageEnabled s1" "balance s1 = balance s - (n1 + n1 * (TRADING_FEE_PERCENT / 100))"
    "holdings s1 symbol = Some \<lparr> h_symbol = symbol, h_name = name, h_shortName = shortName,
             h_amount = n1 / p1, h_avgBuyPrice = p1, h_color = color \<rparr>"
    using assms(1) by (simp_all add: s1_def b1)
  have le2: "n2 + n2 * (TRADING_FEE_PERCENT / 100) \<le> balance s1"
    using assms(7) s1(2) by simp
  have b2: "buy e2 symbol name shortName n2 p2 color s1 =
     (Inr p2,
      s1\<lparr> balance := balance s1 - (n2 + n2 * (TRADING_FEE_PERCENT / 100)),
         holdings := (holdings s1)(symbol \<mapsto>
           \<lparr> h_symbol = symbol, h_name = name, h_shortName = shortName,
             h_amount = n1 / p1 + n2 / p2,
             h_avgBuyPrice = (n1 / p1 * p1 + n2) / (n1 / p1 + n2 / p2), h_color = color \<rparr>),
         transactions :=
           \<lparr> tx_id = newId e2, tx_type = TxBuy, tx_orderType = Some Market,
             tx_symbol = symbol, tx_name = name, tx_amount = n2 / p2, tx_price = p2,
             tx_total = n2, tx_fee = n2 * (TRADING_FEE_PERCENT / 100),
             tx_slippage = (if p2 - p2 > 0 then Some (p2 - p2) else None),
             tx_timestamp = now e2, tx_note = None \<rparr>
           # transactions s1 \<rparr>)"
    by (rule buy_accepted_state [OF le2]) (simp_all add: s1)
  have q2: "n2 / p2 * p2 = n2" using assms(4) by simp
  show ?thesis
    unfolding Let_def s1_def [symmetric]
    using assms(3,4) by (simp add: b1 b2 s1 getHolding_def q2)
qed

theorem buy_average_cost_witness:
  "\<not> slippageEnabled freshWallet \<and> holdings freshWallet ''BTCUSDT'' = None
   \<and> (50000 :: real) \<noteq> 0 \<and> (60000 :: real) \<noteq> 0 \<and> (100 / 50000 + 100 / 60000 :: real) \<noteq> 0
   \<and> 100 + 100 * (TRADING_FEE_PERCENT / 100) \<le> balance freshWallet
   \<and> 100 + 100 * (TRADING_FEE_PERCENT / 100)
        \<le> balance freshWallet - (100 + 100 * (TRADING_FEE_PERCENT / 100))
   \<and> getHolding ''BTCUSDT'' btcWallet =
        Some \<lparr> h_symbol = ''BTCUSDT'', h_name = ''Bitcoin'', h_shortName = ''BTC'',
               h_amount = 0.002, h_avgBuyPrice = 50000, h_color = ''#F7931A'' \<rparr>
   \<and> getHolding ''BTCUSDT''
        (snd (buy envD ''BTCUSDT'' ''Bitcoin'' ''BTC'' 100 60000 ''#F7931A'' btcWallet)) =
        Some \<lparr> h_symbol = ''BTCUSDT'', h_name = ''Bitcoin'', h_shortName = ''BTC'',
               h_amount = 11 / 3000, h_avgBuyPrice = 600000 / 11, h_color = ''#F7931A'' \<rparr>"
proof -
  have a: "\<not> slippageEnabled freshWallet" "holdings freshWallet ''BTCUSDT'' = None"
    by (simp_all add: freshWallet_eq)
  have p: "(50000 :: real) \<noteq> 0" "(60000 :: real) \<noteq> 0" "(100 / 50000 + 100 / 60000 :: real) \<noteq> 0"
    by simp_all
  have b: "100 + 100 * (TRADING_FEE_PERCENT / 100) \<le> balance freshWallet"
    "100 + 100 * (TRADING_FEE_PERCENT / 100)
        \<le> balance freshWallet - (100 + 100 * (TRADING_FEE_PERCENT / 100))"
    by (simp_all add: freshWallet_eq TRADING_FEE_PERCENT_def)
  show ?thesis
    using a p b
      buy_average_cost [OF a p b, where ?e1.0 = envA and ?e2.0 = envD and name = "''Bitcoin''"
        and shortName = "''BTC''" and color = "''#F7931A''"]
    by (simp add: btcWallet_def [symmetric] Let_def)
qed

section \<open>Selling a whole holding\<close>

text \<open>
  C6, as the store has it. As stated the claim fails for a holding whose quantity is not
  finite. A \<^verbatim>\<open>buy\<close> at the price 0 divides the notional by zero and stores the
  quantity Infinity. Selling that entire quantity is accepted, the remaining quantity is
  Infinity - Infinity = NaN, the test \<^verbatim>\<open>NaN <= 0.00000001\<close> is false, and the holding
  stays in the map with the quantity NaN: \<^verbatim>\<open>getHolding\<close> still returns it.
\<close>

theorem infinite_holding_counterexample:
  "getHolding ''BTCUSDT'' zeroPriceWallet_js =
     Some \<lparr> h_symbol = ''BTCUSDT'', h_name = ''Bitcoin'', h_shortName = ''BTC'',
            h_amount = PInf, h_avgBuyPrice = Fin 0, h_color = ''#F7931A'' \<rparr>
   \<and> fst (sell_js envD_js ''BTCUSDT'' PInf (js_num 55000) zeroPriceWallet_js)
       = Inr (Fin 55000)
   \<and> getHolding ''BTCUSDT''
        (snd (sell_js envD_js ''BTCUSDT'' PInf (js_num 55000) zeroPriceWallet_js)) =
     Some \<lparr> h_symbol = ''BTCUSDT'', h_name = ''Bitcoin'', h_shortName = ''BTC'',
            h_amount = NaN, h_avgBuyPrice = Fin 0, h_color = ''#F7931A'' \<rparr>"
  by (simp add: getHolding_def sell_js_def zeroPriceWallet_js_holdings js_sub_def js_constants
      Let_def)

text \<open>
  C6, amended. For every holding with a finite quantity, under a symbol that is not a key
  inherited from \<^verbatim>\<open>Object.prototype\<close>, selling the entire quantity succeeds and
  removes the symbol from the holdings map, so that \<^verbatim>\<open>getHolding\<close> then returns
  nothing; the same holds for every sale of a finite amount that leaves at most the
  epsilon 0.00000001, in particular less than it. The price may be any number.
\<close>

theorem sell_all_finite_holding_removed:
  assumes "holdings s symbol = Some h" and "h_amount h = Fin q"
    and "symbol \<notin> set objectPrototypeKeys"
  shows "(\<exists>p. fst (sell_js e symbol (h_amount h) price s) = Inr p)
     \<and> getHolding symbol (snd (sell_js e symbol (h_amount h) price s)) = None
     \<and> (a \<le> q \<and> q - a \<le> 0.00000001 \<longrightarrow>
          (\<exists>p. fst (sell_js e symbol (Fin a) price s) = Inr p)
          \<and> getHolding symbol (snd (sell_js e symbol (Fin a) price s)) = None)"
proof -
  have whole: "(\<exists>p. fst (sell_js e symbol (h_amount h) price s) = Inr p)
     \<and> getHolding symbol (snd (sell_js e symbol (h_amount h) price s)) = None"
    using remainder_js [of q q] assms(2)
    by (intro sell_js_removes [OF assms(1)]) simp_all
  have part: "(\<exists>p. fst (sell_js e symbol (Fin a) price s) = Inr p)
          \<and> getHolding symbol (snd (sell_js e symbol (Fin a) price s)) = None"
    if "a \<le> q" "q - a \<le> 0.00000001"
    using remainder_js [OF that] assms(2)
    by (intro sell_js_removes [OF assms(1)]) simp_all
  show ?thesis using whole part by blast
qed

theorem sell_all_finite_holding_removed_witness:
  "holdings btcWallet_js ''BTCUSDT'' =
     Some \<lparr> h_symbol = ''BTCUSDT'', h_name = ''Bitcoin'', h_shortName = ''BTC'',
            h_amount = Fin (1152921504606847 / 576460752303423488),
            h_avgBuyPrice = Fin 50000, h_color = ''#F7931A'' \<rparr>
   \<and> ''BTCUSDT'' \<notin> set objectPrototypeKeys
   \<and> fst (sell_js envD_js ''BTCUSDT'' (Fin (1152921504606847 / 576460752303423488))
             (js_num 55000) btcWallet_js) = Inr (Fin 55000)
   \<and> getHolding ''BTCUSDT''
        (snd (sell_js envD_js ''BTCUSDT'' (Fin (1152921504606847 / 576460752303423488))
                (js_num 55000) btcWallet_js)) = None
   \<and> (1152920967735935 / 576460752303423488 :: real) \<le> 1152921504606847 / 576460752303423488
   \<and> (1152921504606847 / 576460752303423488 - 1152920967735935 / 576460752303423488 :: real)
        \<le> 0.00000001
   \<and> fst (sell_js envD_js ''BTCUSDT'' (Fin (1152920967735935 / 576460752303423488))
             (js_num 55000) btcWallet_js) = Inr (Fin 55000)
   \<and> getHolding ''BTCUSDT''
        (snd (sell_js envD_js ''BTCUSDT'' (Fin (1152920967735935 / 576460752303423488))
                (js_num 55000) btcWallet_js)) = None"
proof -
  let ?h = "\<lparr> h_symbol = ''BTCUSDT'', h_name = ''Bitcoin'', h_shortName = ''BTC'',
            h_amount = Fin (1152921504606847 / 576460752303423488),
            h_avgBuyPrice = Fin 50000, h_color = ''#F7931A'' \<rparr>"
  have h: "holdings btcWallet_js ''BTCUSDT'' = Some ?h" by (simp add: btcWallet_js_eq)
  have q: "h_amount ?h = Fin (1152921504606847 / 576460752303423488)" by simp
  have k: "''BTCUSDT'' \<notin> set objectPrototypeKeys" by (simp add: objectPrototypeKeys_def)
  have a: "(1152920967735935 / 576460752303423488 :: real) \<le> 1152921504606847 / 576460752303423488"
    "(1152921504606847 / 576460752303423488 - 1152920967735935 / 576460752303423488 :: real)
        \<le> 0.00000001"
    by simp_all
  have p: "fst (sell_js envD_js ''BTCUSDT'' (Fin (1152921504606847 / 576460752303423488))
             (js_num 55000) btcWallet_js) = Inr (Fin 55000)"
    "fst (sell_js envD_js ''BTCUSDT'' (Fin (1152920967735935 / 576460752303423488))
             (js_num 55000) btcWallet_js) = Inr (Fin 55000)"
    by (simp_all add: sell_js_def btcWallet_js_eq Let_def js_constants)
  note t = sell_all_finite_holding_removed [OF h q k, where e = envD_js
      and price = "js_num 55000" and a = "1152920967735935 / 576460752303423488"]
  show ?thesis
    using h k a p t by simp
qed

section \<open>Slippage bounds\<close>

text \<open>
  C7, as the store has it. As stated the claim fails by the rounding of doubles. With
  slippage at 0.5 percent, the quoted price 3 and the draw \<open>1 - 1 / 2 ^ 52\<close>, the largest
  double below 1, \<^verbatim>\<open>buy\<close> executes above 3 * 1.005 and \<^verbatim>\<open>sell\<close> executes
  below 3 * 0.995.
\<close>

theorem rounding_counterexample:
  "slippageEnabled slippageWallet_js \<and> slippagePercent slippageWallet_js = js_num 0.5
   \<and> random envD_js = Fin (1 - 1 / 2 ^ 52)
   \<and> (0 :: real) \<le> 1 - 1 / 2 ^ 52 \<and> (1 - 1 / 2 ^ 52 :: real) < 1
   \<and> fst (buy_js envD_js ''BTCUSDT'' ''Bitcoin'' ''BTC'' (js_num 100) (js_num 3) ''#F7931A''
             slippageWallet_js)
       = Inr (Fin (6789176438261023 / 2251799813685248))
   \<and> (3 * 1.005 :: real) < 6789176438261023 / 2251799813685248
   \<and> fst (sell_js envD_js ''BTCUSDT'' (js_num 0.001) (js_num 3) slippageWallet_js)
       = Inr (Fin (6721622443850465 / 2251799813685248))
   \<and> (6721622443850465 / 2251799813685248 :: real) < 3 * 0.995"
  by (simp add: slippageWallet_js_eq btcWallet_js_eq half_js buy_js_def sell_js_def
      getExecutedPrice_js_def calculateSlippage_js_def TRADING_FEE_PERCENT_js_def envD_js_def
      js_sub_def double_eval)

text \<open>
  C7, amended. With slippage enabled at 0.5 percent, a draw at least 0 and below 1 and a
  quoted price that is a double between \<open>2 powi (- 1000)\<close> and \<open>2 powi 1000\<close>, slippage
  is never favourable and stays within 0.5 percent up to one rounding error: the price
  that a successful \<^verbatim>\<open>buy\<close> returns is finite and lies between the quoted price and
  the quoted price times 1.005 times \<open>1 + 2 powi (- 52)\<close>, and the one that a successful
  \<^verbatim>\<open>sell\<close> returns is finite and lies between the quoted price times 0.995 times
  \<open>1 - 2 powi (- 52)\<close> and the quoted price.
\<close>

theorem slippage_bounds_rounded:
  assumes "slippageEnabled s" and "slippagePercent s = js_num 0.5"
    and "random e = Fin r" and "0 \<le> r" and "r < 1"
    and "isDouble p" and "2 powi (- 1000) \<le> p" and "p \<le> 2 powi 1000"
  shows "(\<forall>ep s'. buy_js e symbol name shortName amount (Fin p) color s = (Inr ep, s') \<longrightarrow>
            (\<exists>x. ep = Fin x \<and> p \<le> x \<and> x \<le> p * 1.005 * (1 + 2 powi (- 52))))
     \<and> (\<forall>ep s'. sell_js e symbol quantity (Fin p) s = (Inr ep, s') \<longrightarrow>
            (\<exists>x. ep = Fin x \<and> p * 0.995 * (1 - 2 powi (- 52)) \<le> x \<and> x \<le> p))"
proof (intro conjI allI impI)
  fix ep s'
  assume "buy_js e symbol name shortName amount (Fin p) color s = (Inr ep, s')"
  from buy_js_executedPrice [OF this] assms(1,2,3)
  have "ep = getExecutedPrice_js (Fin r) (Fin p) (Fin (1 / 2)) True"
    by (simp only: half_js if_True)
  then show "\<exists>x. ep = Fin x \<and> p \<le> x \<and> x \<le> p * 1.005 * (1 + 2 powi (- 52))"
    using executed_buy_js [OF assms(4,5,7,8,6)] by simp
next
  fix ep s'
  assume "sell_js e symbol quantity (Fin p) s = (Inr ep, s')"
  from sell_js_executedPrice [OF this] assms(1,2,3)
  have "ep = getExecutedPrice_js (Fin r) (Fin p) (Fin (1 / 2)) False"
    by (simp only: half_js if_True)
  then show "\<exists>x. ep = Fin x \<and> p * 0.995 * (1 - 2 powi (- 52)) \<le> x \<and> x \<le> p"
    using executed_sell_js [OF assms(4,5,7,8,6)] by simp
qed

theorem slippage_bounds_rounded_witness:
  "slippageEnabled slippageWallet_js \<and> slippagePercent slippageWallet_js = js_num 0.5
   \<and> random envD_js = Fin (1 - 1 / 2 ^ 52)
   \<and> (0 :: real) \<le> 1 - 1 / 2 ^ 52 \<and> (1 - 1 / 2 ^ 52 :: real) < 1
   \<and> isDouble 50000 \<and> 2 powi (- 1000) \<le> (50000 :: real) \<and> (50000 :: real) \<le> 2 powi 1000
   \<and> fst (buy_js envD_js ''BTCUSDT'' ''Bitcoin'' ''BTC'' (js_num 100) (Fin 50000) ''#F7931A''
             slippageWallet_js) = Inr (Fin 50250)
   \<and> (50000 :: real) \<le> 50250 \<and> (50250 :: real) \<le> 50000 * 1.005 * (1 + 2 powi (- 52))
   \<and> fst (sell_js envD_js ''BTCUSDT'' (js_num 0.001) (Fin 50000) slippageWallet_js)
       = Inr (Fin 49750)
   \<and> (50000 :: real) * 0.995 * (1 - 2 powi (- 52)) \<le> 49750 \<and> (49750 :: real) \<le> 50000"
proof -
  have s: "slippageEnabled slippageWallet_js" "slippagePercent slippageWallet_js = js_num 0.5"
    by (simp_all add: slippageWallet_js_eq double_eval)
  have r: "random envD_js = Fin (1 - 1 / 2 ^ 52)" "(0 :: real) \<le> 1 - 1 / 2 ^ 52"
    "(1 - 1 / 2 ^ 52 :: real) < 1"
    by (simp_all add: envD_js_def)
  have p: "isDouble 50000" "2 powi (- 1000) \<le> (50000 :: real)" "(50000 :: real) \<le> 2 powi 1000"
    by (simp_all add: isDouble_def double_eval)
  have b: "fst (buy_js envD_js ''BTCUSDT'' ''Bitcoin'' ''BTC'' (js_num 100) (Fin 50000)
             ''#F7931A'' slippageWallet_js) = Inr (Fin 50250)"
    by (simp add: slippageWallet_js_eq btcWallet_js_eq buy_js_def getExecutedPrice_js_def
        calculateSlippage_js_def TRADING_FEE_PERCENT_js_def envD_js_def js_sub_def double_eval)
  have q: "fst (sell_js envD_js ''BTCUSDT'' (js_num 0.001) (Fin 50000) slippageWallet_js)
       = Inr (Fin 49750)"
    by (simp add: slippageWallet_js_eq btcWallet_js_eq sell_js_def getExecutedPrice_js_def
        calculateSlippage_js_def TRADING_FEE_PERCENT_js_def envD_js_def js_sub_def double_eval)
  have b': "buy_js envD_js ''BTCUSDT'' ''Bitcoin'' ''BTC'' (js_num 100) (Fin 50000) ''#F7931A''
       slippageWallet_js
     = (Inr (Fin 50250), snd (buy_js envD_js ''BTCUSDT'' ''Bitcoin'' ''BTC'' (js_num 100)
          (Fin 50000) ''#F7931A'' slippageWallet_js))"
    using b by (simp add: prod_eq_iff)
  have q': "sell_js envD_js ''BTCUSDT'' (js_num 0.001) (Fin 50000) slippageWallet_js
     = (Inr (Fin 49750), snd (sell_js envD_js ''BTCUSDT'' (js_num 0.001) (Fin 50000)
          slippageWallet_js))"
    using q by (simp add: prod_eq_iff)
  note t = slippage_bounds_rounded [OF s r p, where symbol = "''BTCUSDT''"
      and name = "''Bitcoin''" and shortName = "''BTC''" and amount = "js_num 100"
      and color = "''#F7931A''" and quantity = "js_num 0.001"]
  have bb: "(50000 :: real) \<le> 50250 \<and> (50250 :: real) \<le> 50000 * 1.005 * (1 + 2 powi (- 52))"
    using t [THEN conjunct1, THEN spec, THEN spec, THEN mp, OF b'] by simp
  have qq: "(50000 :: real) * 0.995 * (1 - 2 powi (- 52)) \<le> 49750 \<and> (49750 :: real) \<le> 50000"
    using t [THEN conjunct2, THEN spec, THEN spec, THEN mp, OF q'] by simp
  show ?thesis
    using s r p b q bb qq by (intro conjI) simp_all
qed

section \<open>Terminal orders\<close>

text \<open>
  C8. In a wallet whose orders have distinct ids, an order that is filled, cancelled or
  expired is never evaluated again or changed by \<^verbatim>\<open>checkAndExecuteOrders\<close>,
  whatever the price map: after one pass, and after any number of passes with any
  snapshots, it stands in the list at its place with every field as before, and the ids
  of the list are as before, so they stay distinct. The \<^verbatim>\<open>forEach\<close> body returns
  at once on such an order, leaving the whole state, the ledger with it, as it was; a
  pass over a list of terminal orders only changes nothing.
\<close>

theorem terminal_orders_untouched:
  assumes "distinct (map o_id (pendingOrders s))"
  shows "(\<forall>i < length (pendingOrders s). o_status (pendingOrders s ! i) \<noteq> Pending \<longrightarrow>
            pendingOrders (checkAndExecuteOrders startedAt envs currentPrices s) ! i
              = pendingOrders s ! i
            \<and> pendingOrders (checkRepeatedly passes s) ! i = pendingOrders s ! i)
     \<and> map o_id (pendingOrders (checkRepeatedly passes s)) = map o_id (pendingOrders s)
     \<and> (o_status order \<noteq> Pending \<longrightarrow> processOrder startedAt currentPrices e order s = s)
     \<and> ((\<forall>order \<in> set (pendingOrders s). o_status order \<noteq> Pending) \<longrightarrow>
           checkAndExecuteOrders startedAt envs currentPrices s = s)"
  using check_keeps [OF assms] checkRepeatedly_keeps [OF assms] checkRepeatedly_ids
    processOrder_terminal forEachOrder_terminal
  by (simp add: checkAndExecuteOrders_def)

theorem terminal_orders_untouched_witness:
  "distinct (map o_id (pendingOrders twoOrdersWallet))
   \<and> map o_status (pendingOrders twoOrdersWallet) = [Cancelled, Pending]
   \<and> map o_status (pendingOrders
        (checkAndExecuteOrders 5000 (\<lambda>i. envD) [''BTCUSDT'' \<mapsto> 61000] twoOrdersWallet))
       = [Cancelled, Filled]
   \<and> pendingOrders
        (checkAndExecuteOrders 5000 (\<lambda>i. envD) [''BTCUSDT'' \<mapsto> 61000] twoOrdersWallet) ! 0
       = pendingOrders twoOrdersWallet ! 0
   \<and> pendingOrders
        (checkRepeatedly [(5000, \<lambda>i. envD, [''BTCUSDT'' \<mapsto> 61000]),
                          (6000, \<lambda>i. envD, [''BTCUSDT'' \<mapsto> 62000])] twoOrdersWallet) ! 0
       = pendingOrders twoOrdersWallet ! 0
   \<and> map o_id (pendingOrders
        (checkRepeatedly [(5000, \<lambda>i. envD, [''BTCUSDT'' \<mapsto> 61000]),
                          (6000, \<lambda>i. envD, [''BTCUSDT'' \<mapsto> 62000])] twoOrdersWallet))
       = [''order1'', ''order2'']
   \<and> processOrder 5000 [''BTCUSDT'' \<mapsto> 61000] envD (pendingOrders twoOrdersWallet ! 0)
        twoOrdersWallet = twoOrdersWallet
   \<and> distinct (map o_id (pendingOrders cancelledWallet))
   \<and> map o_status (pendingOrders cancelledWallet) = [Cancelled]
   \<and> checkAndExecuteOrders 5000 (\<lambda>i. envD) [''BTCUSDT'' \<mapsto> 61000] cancelledWallet
       = cancelledWallet"
proof -
  have d2: "distinct (map o_id (pendingOrders twoOrdersWallet))"
    by (simp add: twoOrdersWallet_eq)
  have st2: "map o_status (pendingOrders twoOrdersWallet) = [Cancelled, Pending]"
    by (simp add: twoOrdersWallet_eq)
  have i0: "0 < length (pendingOrders twoOrdersWallet)"
    "o_status (pendingOrders twoOrdersWallet ! 0) \<noteq> Pending"
    by (simp_all add: twoOrdersWallet_eq)
  have d1: "distinct (map o_id (pendingOrders cancelledWallet))"
    by (simp add: cancelledWallet_eq)
  have st1: "map o_status (pendingOrders cancelledWallet) = [Cancelled]"
    by (simp add: cancelledWallet_eq)
  have all1: "\<forall>order \<in> set (pendingOrders cancelledWallet). o_status order \<noteq> Pending"
    by (simp add: cancelledWallet_eq)
  note two = terminal_orders_untouched [OF d2, where startedAt = 5000 and envs = "\<lambda>i. envD"
      and currentPrices = "[''BTCUSDT'' \<mapsto> 61000]" and e = envD
      and order = "pendingOrders twoOrdersWallet ! 0"
      and passes = "[(5000, \<lambda>i. envD, [''BTCUSDT'' \<mapsto> 61000]),
                     (6000, \<lambda>i. envD, [''BTCUSDT'' \<mapsto> 62000])]"]
  note one = terminal_orders_untouched [OF d1, where startedAt = 5000 and envs = "\<lambda>i. envD"
      and currentPrices = "[''BTCUSDT'' \<mapsto> 61000]"]
  have a: "pendingOrders
        (checkAndExecuteOrders 5000 (\<lambda>i. envD) [''BTCUSDT'' \<mapsto> 61000] twoOrdersWallet) ! 0
       = pendingOrders twoOrdersWallet ! 0
     \<and> pendingOrders
        (checkRepeatedly [(5000, \<lambda>i. envD, [''BTCUSDT'' \<mapsto> 61000]),
                          (6000, \<lambda>i. envD, [''BTCUSDT'' \<mapsto> 62000])] twoOrdersWallet) ! 0
       = pendingOrders twoOrdersWallet ! 0"
    using two [THEN conjunct1, THEN spec, of 0] i0 by simp
  have b: "map o_id (pendingOrders
        (checkRepeatedly [(5000, \<lambda>i. envD, [''BTCUSDT'' \<mapsto> 61000]),
                          (6000, \<lambda>i. envD, [''BTCUSDT'' \<mapsto> 62000])] twoOrdersWallet))
       = [''order1'', ''order2'']"
    using two [THEN conjunct2, THEN conjunct1] by (simp add: twoOrdersWallet_eq)
  have c: "processOrder 5000 [''BTCUSDT'' \<mapsto> 61000] envD (pendingOrders twoOrdersWallet ! 0)
        twoOrdersWallet = twoOrdersWallet"
    using two [THEN conjunct2, THEN conjunct2, THEN conjunct1] i0(2) by simp
  have e: "checkAndExecuteOrders 5000 (\<lambda>i. envD) [''BTCUSDT'' \<mapsto> 61000] cancelledWallet
       = cancelledWallet"
    using one [THEN conjunct2, THEN conjunct2, THEN conjunct2] all1 by simp
  show ?thesis
    using d2 st2 check_twoOrdersWallet a b c d1 st1 e by (intro conjI) simp_all
qed

section \<open>Atomic mutators\<close>

text \<open>
  C9. \<^verbatim>\<open>buy\<close>, \<^verbatim>\<open>sell\<close> and \<^verbatim>\<open>claimDailyBonus\<close> are atomic. A
  failed call carries its error (\<^verbatim>\<open>Insufficient balance\<close>,
  \<^verbatim>\<open>Insufficient holdings\<close>, \<^verbatim>\<open>Already claimed today\<close> or
  \<^verbatim>\<open>Upgrade to get daily bonus\<close>) and returns the state unchanged. A successful
  call returns the old state with the balance, the holdings (for the bonus: the date of
  the last claim) and the transaction log updated together, the log by exactly one new
  record at its head, and nothing else changed.
\<close>

theorem ledger_mutators_atomic:
  "(case buy e symbol name shortName amount price color s of
      (Inl err, s') \<Rightarrow> err = ''Insufficient balance'' \<and> s' = s
    | (Inr p, s') \<Rightarrow>
        \<exists>h tx. s' = s\<lparr> balance := balance s - (amount + amount * (TRADING_FEE_PERCENT / 100)),
                          holdings := (holdings s)(symbol \<mapsto> h),
                          transactions := tx # transactions s \<rparr>
          \<and> h_symbol h = symbol \<and> tx_type tx = TxBuy \<and> tx_symbol tx = symbol
          \<and> tx_price tx = p \<and> tx_total tx = amount)
   \<and> (case sell e symbol amount price s of
      (Inl err, s') \<Rightarrow> err = ''Insufficient holdings'' \<and> s' = s
    | (Inr p, s') \<Rightarrow>
        \<exists>h tx. holdings s symbol = Some h
          \<and> s' = s\<lparr> balance := balance s
                         + (amount * p - amount * p * (TRADING_FEE_PERCENT / 100)),
                       holdings :=
                         (if h_amount h - amount \<le> 0.00000001 then (holdings s)(symbol := None)
                          else (holdings s)(symbol \<mapsto> h\<lparr> h_amount := h_amount h - amount \<rparr>)),
                       transactions := tx # transactions s \<rparr>
          \<and> tx_type tx = TxSell \<and> tx_symbol tx = symbol \<and> tx_price tx = p
          \<and> tx_amount tx = amount)
   \<and> (case claimDailyBonus e today s of
      (Inl err, s') \<Rightarrow>
        (err = ''Already claimed today'' \<or> err = ''Upgrade to get daily bonus'') \<and> s' = s
    | (Inr a, s') \<Rightarrow>
        \<exists>tx. a = DAILY_BONUS (userTier s)
          \<and> s' = s\<lparr> balance := balance s + a, lastBonusClaim := Some today,
                       transactions := tx # transactions s \<rparr>
          \<and> tx_type tx = TxBonus \<and> tx_amount tx = a)"
  using buy_atomic sell_atomic claimDailyBonus_atomic by (intro conjI)

theorem ledger_mutators_atomic_witness:
  "buy envD ''BTCUSDT'' ''Bitcoin'' ''BTC'' 1000 50000 ''#F7931A'' btcWallet
     = (Inl ''Insufficient balance'', btcWallet)
   \<and> sell envD ''BTCUSDT'' 1000 50000 btcWallet = (Inl ''Insufficient holdings'', btcWallet)
   \<and> claimDailyBonus envD ''Mon Nov 02 2026'' btcWallet
     = (Inl ''Upgrade to get daily bonus'', btcWallet)
   \<and> fst (buy envD ''BTCUSDT'' ''Bitcoin'' ''BTC'' 100 60000 ''#F7931A'' btcWallet) = Inr 60000
   \<and> balance (snd (buy envD ''BTCUSDT'' ''Bitcoin'' ''BTC'' 100 60000 ''#F7931A'' btcWallet))
     = 299.8
   \<and> length (transactions
        (snd (buy envD ''BTCUSDT'' ''Bitcoin'' ''BTC'' 100 60000 ''#F7931A'' btcWallet))) = 3
   \<and> fst (sell envD ''BTCUSDT'' 0.001 60000 btcWallet) = Inr 60000
   \<and> balance (snd (sell envD ''BTCUSDT'' 0.001 60000 btcWallet)) = 459.84
   \<and> length (transactions (snd (sell envD ''BTCUSDT'' 0.001 60000 btcWallet))) = 3"
  using ledger_mutators_atomic [where e = envD and symbol = "''BTCUSDT''"
      and name = "''Bitcoin''" and shortName = "''BTC''" and amount = 1000 and price = 50000
      and color = "''#F7931A''" and s = btcWallet and today = "''Mon Nov 02 2026''"]
  by (simp add: btcWallet_eq buy_def sell_def claimDailyBonus_def TRADING_FEE_PERCENT_def Let_def)

section \<open>Resetting the wallet\<close>

text \<open>
  C10. From any state, \<^verbatim>\<open>resetWallet\<close> puts the balance and the initial deposit back
  to 500, empties the holdings, the pending orders and the journal, clears the last bonus
  claim and replaces the transaction log with a single deposit record of 500; the user
  tier and the two slippage settings stay as they were.
\<close>

theorem resetWallet_frame:
  "resetWallet e s =
     \<lparr> balance = 500, initialDeposit = 500, holdings = Map.empty,
       transactions =
         [\<lparr> tx_id = newId e, tx_type = TxDeposit, tx_orderType = None,
            tx_symbol = ''USD'', tx_name = ''Wallet Reset'', tx_amount = 500, tx_price = 1,
            tx_total = 500, tx_fee = 0, tx_slippage = None, tx_timestamp = now e,
            tx_note = None \<rparr>],
       pendingOrders = [], journalEntries = [],
       userTier = userTier s, lastBonusClaim = None,
       slippageEnabled = slippageEnabled s, slippagePercent = slippagePercent s \<rparr>"
  by (cases s) (simp add: resetWallet_def INITIAL_BALANCE_def)

end
